theory Spec2Isabelle
  imports Main "HOL-Library.Sublist"
begin

section \<open>Library functions the program calls\<close>

text \<open>
  Go strings are byte sequences, so a string is a \<open>char list\<close>.  The functions of this
  section stand for the parts of the Go standard library that the tunnel package and the
  command call: \<open>strconv.Itoa\<close> and the \<open>%d\<close> verb, \<open>strconv.Atoi\<close>,
  \<open>strings.Contains\<close>, and \<open>Regexp.FindString\<close> for the shape of pattern the
  built-in providers use.  \<open>strings.ToLower\<close> and \<open>regexp.Compile\<close> are not defined
  here: the functions that call them take them as arguments, so that what is proved holds
  for the Unicode case folding and the pattern syntax of the library as they are.
\<close>

subsection \<open>Decimal rendering and parsing\<close>

fun digits :: "nat \<Rightarrow> string" where
  "digits n =
     (if n < 10 then [''0123456789'' ! n]
      else digits (n div 10) @ [''0123456789'' ! (n mod 10)])"

declare digits.simps [simp del]

text \<open>\<open>strconv.Itoa\<close>, which is also what \<open>fmt.Sprintf("%d", i)\<close> prints.\<close>

definition Itoa :: "int \<Rightarrow> string" where
  "Itoa i = (if i < 0 then CHR ''-'' # digits (nat (- i)) else digits (nat i))"

definition digitVal :: "char \<Rightarrow> nat option" where
  "digitVal c = map_of (zip ''0123456789'' [0, 1, 2, 3, 4, 5, 6, 7, 8, 9]) c"

fun parseDigits :: "nat \<Rightarrow> string \<Rightarrow> nat option" where
  "parseDigits acc [] = Some acc"
| "parseDigits acc (c # cs) =
     (case digitVal c of None \<Rightarrow> None | Some d \<Rightarrow> parseDigits (acc * 10 + d) cs)"

text \<open>
  \<open>strconv.Atoi\<close> on a 64-bit platform: an optional sign, at least one decimal digit,
  nothing else, and a value that fits \<open>int\<close>; \<open>None\<close> is the returned error.
\<close>

definition Atoi :: "string \<Rightarrow> int option" where
  "Atoi s =
     (let neg = (s \<noteq> [] \<and> hd s = CHR ''-'');
          body = (if s \<noteq> [] \<and> (hd s = CHR ''-'' \<or> hd s = CHR ''+'') then tl s else s)
      in if body = [] then None
         else case parseDigits 0 body of
                None \<Rightarrow> None
              | Some n \<Rightarrow>
                  (let v = (if neg then - int n else int n)
                   in if v < - (2 ^ 63) \<or> 2 ^ 63 \<le> v then None else Some v))"

subsection \<open>Strings\<close>

text \<open>
  The case folding of ASCII text: \<open>A\<close> to \<open>Z\<close> become \<open>a\<close> to \<open>z\<close>, every other byte
  stays.  On a string of ASCII bytes this is what \<open>strings.ToLower\<close> returns; it is the
  value the sample runs give to the library function, and no theorem depends on it
  otherwise.
\<close>

definition lowerByte :: "char \<Rightarrow> char" where
  "lowerByte c =
     (case map_of (zip ''ABCDEFGHIJKLMNOPQRSTUVWXYZ'' ''abcdefghijklmnopqrstuvwxyz'') c of
        None \<Rightarrow> c
      | Some l \<Rightarrow> l)"

definition lowerASCII :: "string \<Rightarrow> string" where
  "lowerASCII s = map lowerByte s"

text \<open>\<open>strings.Contains s sub\<close>: \<open>sub\<close> occurs in \<open>s\<close> as a contiguous run of bytes.\<close>

fun Contains :: "string \<Rightarrow> string \<Rightarrow> bool" where
  "Contains [] sub = (sub = [])"
| "Contains (c # s) sub = (prefix sub (c # s) \<or> Contains s sub)"

subsection \<open>Regular expressions\<close>

text \<open>
  A compiled \<open>*regexp.Regexp\<close> is used by the program through \<open>FindString\<close> only, so it
  is represented by that function: the leftmost match in the text, or the empty string
  when there is none.  The four built-in patterns all have the shape
  "literal, one or more characters of a class, literal"; \<open>FindString\<close> below is the
  matcher for that shape: leftmost start, greedy repetition, backtracking.
\<close>

type_synonym Regexp = "string \<Rightarrow> string"

datatype rx_item = Lit char | Plus string

fun matchHere :: "rx_item list \<Rightarrow> string \<Rightarrow> string option" where
  "matchHere [] s = Some []"
| "matchHere (Lit c # is) [] = None"
| "matchHere (Lit c # is) (x # xs) =
     (if x = c then map_option ((#) x) (matchHere is xs) else None)"
| "matchHere (Plus cs # is) [] = None"
| "matchHere (Plus cs # is) (x # xs) =
     (if x \<in> set cs
      then (case matchHere (Plus cs # is) xs of
              Some m \<Rightarrow> Some (x # m)
            | None \<Rightarrow> map_option ((#) x) (matchHere is xs))
      else None)"

fun FindString :: "rx_item list \<Rightarrow> Regexp" where
  "FindString p [] = (case matchHere p [] of Some m \<Rightarrow> m | None \<Rightarrow> [])"
| "FindString p (x # xs) =
     (case matchHere p (x # xs) of Some m \<Rightarrow> m | None \<Rightarrow> FindString p xs)"

definition lits :: "string \<Rightarrow> rx_item list" where
  "lits s = map Lit s"

definition alnum :: string where
  "alnum = ''abcdefghijklmnopqrstuvwxyzABCDEFGHIJKLMNOPQRSTUVWXYZ0123456789''"

section \<open>Package config\<close>

record ProviderConfig =
  Host :: string
  Port :: int
  User :: string
  URLRegex :: string

record Config =
  DefaultProvider :: string
  CopyToClipboard :: bool
  QuietMode :: bool
  Providers :: "string \<rightharpoonup> ProviderConfig"
  CustomProviders :: "string \<rightharpoonup> ProviderConfig"

text \<open>The backslash of the pattern sources, which a string literal cannot hold.\<close>

definition BS :: string where
  "BS = [CHR 0x5C]"

definition DefaultConfig :: Config where
  "DefaultConfig =
     \<lparr> DefaultProvider = ''localhost.run'',
       CopyToClipboard = False,
       QuietMode = False,
       Providers =
         [ ''localhost.run'' \<mapsto>
             \<lparr> ProviderConfig.Host = ''localhost.run'', Port = 22, User = ''nokey'',
               URLRegex = ''https://[a-zA-Z0-9]+'' @ BS @ ''.lhr'' @ BS @ ''.life'' \<rparr>,
           ''pinggy'' \<mapsto>
             \<lparr> ProviderConfig.Host = ''a.pinggy.io'', Port = 443, User = ''a'',
               URLRegex =
                 ''https://[a-zA-Z0-9-]+'' @ BS @ ''.a'' @ BS @ ''.free'' @ BS @ ''.pinggy''
                   @ BS @ ''.link'' \<rparr>,
           ''serveo'' \<mapsto>
             \<lparr> ProviderConfig.Host = ''serveo.net'', Port = 22, User = ''serveo'',
               URLRegex =
                 ''Forwarding HTTP traffic from (https://[a-zA-Z0-9-]+'' @ BS @ ''.(?:serveo''
                   @ BS @ ''.net|serveousercontent'' @ BS @ ''.com))'' \<rparr>,
           ''tunnelto'' \<mapsto>
             \<lparr> ProviderConfig.Host = ''tunnel.us.tunnel.to'', Port = 22, User = ''tunnel'',
               URLRegex = ''https://[a-zA-Z0-9-]+'' @ BS @ ''.tunnel'' @ BS @ ''.to'' \<rparr> ],
       CustomProviders = Map.empty \<rparr>"

text \<open>
  \<open>(*Config).GetProvider\<close>: the \<open>providers\<close> table first, then \<open>custom_providers\<close>;
  the lookup is by the exact name.
\<close>

definition Config_GetProvider :: "Config \<Rightarrow> string \<Rightarrow> ProviderConfig option" where
  "Config_GetProvider c name =
     (case Providers c name of
        Some p \<Rightarrow> Some p
      | None \<Rightarrow> (case CustomProviders c name of Some p \<Rightarrow> Some p | None \<Rightarrow> None))"

section \<open>Package tunnel: providers\<close>

record Provider =
  Name :: string
  Host :: string
  Port :: string
  User :: string
  URLRegex :: Regexp

definition LocalhostRun :: Provider where
  "LocalhostRun =
     \<lparr> Name = ''localhost.run'', Host = ''localhost.run'', Port = ''22'', User = ''nokey'',
       URLRegex = FindString (lits ''https://'' @ [Plus alnum] @ lits ''.lhr.life'') \<rparr>"

definition Pinggy :: Provider where
  "Pinggy =
     \<lparr> Name = ''pinggy'', Host = ''a.pinggy.io'', Port = ''443'', User = ''a'',
       URLRegex =
         FindString (lits ''https://'' @ [Plus (alnum @ ''-'')] @ lits ''.a.free.pinggy.link'') \<rparr>"

definition Serveo :: Provider where
  "Serveo =
     \<lparr> Name = ''serveo'', Host = ''serveo.net'', Port = ''22'', User = ''serveo'',
       URLRegex = FindString (lits ''https://'' @ [Plus alnum] @ lits ''.serveo.net'') \<rparr>"

definition TunnelTo :: Provider where
  "TunnelTo =
     \<lparr> Name = ''tunnelto'', Host = ''tunnel.us.tunnel.to'', Port = ''22'', User = ''tunnel'',
       URLRegex = FindString (lits ''https://'' @ [Plus (alnum @ ''-'')] @ lits ''.tunnel.to'') \<rparr>"

text \<open>
  Errors of the standard library and the operating system, as far as the program looks at
  them: the message, and whether \<open>errors.As\<close> finds a \<open>net.Error\<close> or a
  \<open>*net.DNSError\<close> in the chain.
\<close>

record oserror =
  msg :: string
  asNetError :: bool
  asDNSError :: bool

text \<open>The errors the program itself returns, one constructor for each message.\<close>

datatype error =
    InvalidRegex string oserror
  | UnknownProvider string
  | StdoutPipeFailed oserror
  | StderrPipeFailed oserror
  | TunnelUnreachable
  | LaunchFailed oserror
  | ReadFailed oserror
  | NoURLProduced
  | ConnectTimeout
  | Cancelled
  | CloseTimeout
  | InvalidPort string
  | PortNotActive int
  | Offline
  | LocalIPFailed oserror
  | RenderFailed oserror

text \<open>\<open>err.Error()\<close>: the text of each error.\<close>

fun Error :: "error \<Rightarrow> string" where
  "Error (InvalidRegex name e) = ''invalid URL regex for provider '' @ name @ '': '' @ msg e"
| "Error (UnknownProvider name) = ''unknown provider: '' @ name"
| "Error (StdoutPipeFailed e) = ''failed to get stdout pipe: '' @ msg e"
| "Error (StderrPipeFailed e) = ''failed to get stderr pipe: '' @ msg e"
| "Error TunnelUnreachable =
     ''unable to connect to tunneling service: please check your internet connection''"
| "Error (LaunchFailed e) = ''failed to start SSH tunnel: '' @ msg e"
| "Error (ReadFailed e) = ''error reading output: '' @ msg e"
| "Error NoURLProduced = ''SSH connection closed without providing URL''"
| "Error ConnectTimeout = ''timeout waiting for tunnel URL''"
| "Error Cancelled = ''tunnel cancelled''"
| "Error CloseTimeout = ''timeout waiting for tunnel cleanup''"
| "Error (InvalidPort arg) = ''invalid port number: '' @ arg @ '' (must be 1-65535)''"
| "Error (PortNotActive port) = ''port '' @ Itoa port @ '' is not active''"
| "Error Offline = ''no internet connection''"
| "Error (LocalIPFailed e) = msg e"
| "Error (RenderFailed e) = msg e"

text \<open>
  \<open>ProviderFromConfig\<close>.  \<open>compile\<close> is \<open>regexp.Compile\<close>: the compiled pattern, or the
  error for a pattern that does not parse.
\<close>

definition ProviderFromConfig ::
  "(string \<Rightarrow> oserror + Regexp) \<Rightarrow> string \<Rightarrow> ProviderConfig \<Rightarrow> error + Provider" where
  "ProviderFromConfig compile name cfg =
     (case compile (ProviderConfig.URLRegex cfg) of
        Inl err \<Rightarrow> Inl (InvalidRegex name err)
      | Inr regex \<Rightarrow>
          Inr \<lparr> Name = name, Host = ProviderConfig.Host cfg,
                Port = Itoa (ProviderConfig.Port cfg), User = ProviderConfig.User cfg,
                URLRegex = regex \<rparr>)"

text \<open>
  \<open>GetProvider\<close>; a nil \<open>*config.Config\<close> is \<open>None\<close>.  The configuration is consulted
  with the name as given, the built-in table with the name in lower case.  \<open>toLower\<close> is
  \<open>strings.ToLower\<close>.
\<close>

definition builtinProvider :: "string \<Rightarrow> Provider option" where
  "builtinProvider lname =
     (if lname = ''localhost.run'' \<or> lname = ''localhostrun'' then Some LocalhostRun
      else if lname = ''pinggy'' \<or> lname = ''pinggy.io'' then Some Pinggy
      else if lname = ''serveo'' \<or> lname = ''serveo.net'' then Some Serveo
      else if lname = ''tunnelto'' \<or> lname = ''tunnel.to'' then Some TunnelTo
      else None)"

definition GetProvider ::
  "(string \<Rightarrow> oserror + Regexp) \<Rightarrow> (string \<Rightarrow> string) \<Rightarrow> string \<Rightarrow> Config option
    \<Rightarrow> error + Provider" where
  "GetProvider compile toLower name cfg =
     (case (case cfg of None \<Rightarrow> None | Some c \<Rightarrow> Config_GetProvider c name) of
        Some provCfg \<Rightarrow> ProviderFromConfig compile name provCfg
      | None \<Rightarrow>
          (case builtinProvider (toLower name) of
             Some p \<Rightarrow> Inr p
           | None \<Rightarrow> Inl (UnknownProvider name)))"

text \<open>
  The remote-forward argument that \<open>connect\<close> computes first.  \<open>remoteForward\<close> is the
  current tunnel package (it switches on the provider's name), \<open>remoteForward_byHost\<close>
  the earlier variant of the package, whose \<open>Provider\<close> has no name (it compares the host).
\<close>

definition remoteForward :: "Provider \<Rightarrow> int \<Rightarrow> string" where
  "remoteForward p localPort =
     (if Name p = ''pinggy'' then ''0:localhost:'' @ Itoa localPort
      else ''80:localhost:'' @ Itoa localPort)"

definition remoteForward_byHost :: "Provider \<Rightarrow> int \<Rightarrow> string" where
  "remoteForward_byHost p localPort =
     (if Host p = ''a.pinggy.io'' then ''0:localhost:'' @ Itoa localPort
      else ''80:localhost:'' @ Itoa localPort)"

section \<open>Package tunnel: sessions\<close>

subsection \<open>Time, output streams and select\<close>

text \<open>
  A \<open>time.Duration\<close> counts nanoseconds.  \<open>Seconds\<close> is \<open>int(d.Seconds())\<close>.  The method
  adds, as float64 values, the whole seconds and the remaining nanoseconds divided by
  \<open>1e9\<close>, and the conversion truncates.  The result is the number of whole seconds,
  except where the rounding of the sum to 53 bits carries it to the next integer: with
  \<open>2^k\<close> the largest power of two not above the whole seconds, that is when the
  nanoseconds missing to the next second, divided by \<open>1e9\<close>, are less than \<open>2^(k-53)\<close>.
  That cannot happen below \<open>2^24\<close> seconds.  A negative duration gives the negated result
  of its absolute value.
\<close>

type_synonym Duration = int

definition Second :: Duration where
  "Second = 1000000000"

fun pow2le :: "nat \<Rightarrow> nat" where
  "pow2le n = (if n < 2 then 1 else 2 * pow2le (n div 2))"

declare pow2le.simps [simp del]

definition Seconds :: "Duration \<Rightarrow> int" where
  "Seconds d =
     (let a = nat \<bar>d\<bar>;
          sec = a div 1000000000;
          nsec = a mod 1000000000;
          s = (if 1 \<le> sec \<and> (1000000000 - nsec) * 2 ^ 53 < 1000000000 * pow2le sec
               then sec + 1 else sec)
      in if d < 0 then - int s else int s)"

text \<open>
  The subprocess's combined output as the scanning goroutine sees it: the successive
  results of \<open>reader.ReadString('\n')\<close>, each with the moment it returns (nanoseconds
  after the subprocess started), the bytes read and the error, if any.  After the last
  entry of the list no read returns any more.
\<close>

datatype readerr = EOF | ReadError oserror

record read =
  at :: nat
  line :: string
  rerr :: "readerr option"

datatype scanned = Found nat string | Failed nat error | Pending

text \<open>
  The loop of the scanning goroutine: the first read whose line is not empty and has a
  non-empty match sends the match on \<open>urlChan\<close>; otherwise the first read with an error
  sends on \<open>errChan\<close>; a line is tested before its error is looked at.
\<close>

fun scan :: "Regexp \<Rightarrow> read list \<Rightarrow> scanned" where
  "scan rx [] = Pending"
| "scan rx (r # rs) =
     (if 0 < length (line r) \<and> rx (line r) \<noteq> [] then Found (at r) (rx (line r))
      else (case rerr r of
              Some (ReadError e) \<Rightarrow> Failed (at r) (ReadFailed e)
            | Some EOF \<Rightarrow> Failed (at r) NoURLProduced
            | None \<Rightarrow> scan rx rs))"

text \<open>
  A \<open>select\<close> statement over cases that become ready at given moments (\<open>None\<close>: never).
  The case that is ready first fires; among cases ready at the same moment Go chooses at
  random, which is the \<open>coin\<close>.  With no case ever ready the statement blocks for ever:
  \<open>None\<close>.
\<close>

fun earliest :: "('a \<times> nat option) list \<Rightarrow> nat option" where
  "earliest [] = None"
| "earliest ((c, None) # cs) = earliest cs"
| "earliest ((c, Some t) # cs) =
     (case earliest cs of None \<Rightarrow> Some t | Some m \<Rightarrow> Some (min t m))"

definition select :: "nat \<Rightarrow> ('a \<times> nat option) list \<Rightarrow> ('a \<times> nat) option" where
  "select coin cases =
     (case earliest cases of
        None \<Rightarrow> None
      | Some m \<Rightarrow>
          (let ready = map fst (filter (\<lambda>c. snd c = Some m) cases)
           in Some (ready ! (coin mod length ready), m)))"

subsection \<open>The environment and the trace of effects\<close>

text \<open>
  What the operating system and the libraries answer during one run.  For the tunnel
  package: the platform name, \<open>regexp.Compile\<close> and \<open>strings.ToLower\<close>, the errors of the two
  pipe calls, the result of \<open>cmd.Start\<close> (an error, or the output the subprocess will
  produce), the coin of \<open>select\<close>, the result of the dial in \<open>IsOnline\<close>, and how long
  after a kill the subprocess's exit is observed.  For the command: whether something
  listens on a port, the local address, the errors of the clipboard and of the QR encoder,
  and whether an interrupt signal ever arrives.
\<close>

record env =
  goos :: string
  regexpCompile :: "string \<Rightarrow> oserror + Regexp"
  stringsToLower :: "string \<Rightarrow> string"
  stdoutPipe :: "oserror option"
  stderrPipe :: "oserror option"
  cmdStart :: "oserror + read list"
  selectCoin :: nat
  dialOnline :: bool
  exitAfterKill :: "nat option"
  portActive :: "int \<Rightarrow> bool"
  localIP :: "oserror + string"
  clipboardErr :: "oserror option"
  qrErr :: "oserror option"
  signalArrives :: bool

datatype level = ErrorMsg | SuccessMsg | InfoMsg

datatype event =
    Spawn string "string list"
  | Kill
  | SetPublicURL string
  | Print level string
  | ClipboardWrite string
  | Render string bool

type_synonym trace = "event list"

fun isSpawn :: "event \<Rightarrow> bool" where
  "isSpawn (Spawn c as) = True"
| "isSpawn e = False"

fun isSetPublicURL :: "event \<Rightarrow> bool" where
  "isSetPublicURL (SetPublicURL u) = True"
| "isSetPublicURL e = False"

subsection \<open>Tunnel\<close>

text \<open>
  \<open>Process\<close> says whether \<open>cmd.Process\<close> is set, that is, whether the subprocess was
  started.  The context and its cancel function are the flag \<open>ctxDone\<close>; the channel
  \<open>done\<close> is the flag \<open>doneClosed\<close>; \<open>monitor\<close> says whether the goroutine that waits
  for the subprocess and then closes \<open>done\<close> is running.  The mutex has no counterpart:
  the operations of the model are atomic.
\<close>

record Cmd =
  Path :: string
  Args :: "string list"
  Process :: bool

record Tunnel =
  cmd :: "Cmd option"
  publicURL :: string
  localPort :: int
  ctxDone :: bool
  provider :: Provider
  monitor :: bool
  doneClosed :: bool

record TunnelConfig =
  LocalPort :: int
  Provider :: Provider
  Timeout :: Duration

text \<open>\<open>isNetworkError\<close>; a nil error is \<open>None\<close>, and \<open>toLower\<close> is \<open>strings.ToLower\<close>.\<close>

definition networkPatterns :: "string list" where
  "networkPatterns =
     [''no such host'', ''connection refused'', ''network is unreachable'',
      ''no route to host'', ''connection timed out'', ''i/o timeout'',
      ''executable file not found'']"

definition isNetworkError :: "(string \<Rightarrow> string) \<Rightarrow> oserror option \<Rightarrow> bool" where
  "isNetworkError toLower err =
     (case err of
        None \<Rightarrow> False
      | Some e \<Rightarrow>
          if asNetError e then True
          else if asDNSError e then True
          else list_ex (Contains (toLower (msg e))) networkPatterns)"

text \<open>The arguments \<open>connect\<close> builds for the ssh client.\<close>

definition sshArgs :: "Provider \<Rightarrow> int \<Rightarrow> Duration \<Rightarrow> string list" where
  "sshArgs p port timeout =
     [''-o'', ''StrictHostKeyChecking=no'',
      ''-o'', ''UserKnownHostsFile=/dev/null'',
      ''-o'', ''LogLevel=ERROR'',
      ''-o'', ''ConnectTimeout='' @ Itoa (Seconds timeout)]
     @ (if Port p \<noteq> ''22'' then [''-p'', Port p] else [])
     @ [''-R'', remoteForward p port, User p @ ''@'' @ Host p]"

text \<open>
  The \<open>select\<close> statement at the end of \<open>connect\<close>, in the order of the source: the URL
  channel, the error channel, the timer, the context.  The scanning goroutine feeds at
  most one of the two channels.  The result is the returned error, the moment of the
  return, the session and the trace.
\<close>

datatype connectCase = URLChan string | ErrChan error | TimeAfter | CtxDone

definition awaitURL ::
  "nat \<Rightarrow> Duration \<Rightarrow> nat option \<Rightarrow> scanned \<Rightarrow> Tunnel \<Rightarrow> trace
    \<Rightarrow> (error option \<times> nat \<times> Tunnel \<times> trace) option" where
  "awaitURL coin timeout ctxDoneAt sc t w =
     (case select coin
             ((case sc of
                 Found a url \<Rightarrow> [(URLChan url, Some a)]
               | Failed a e \<Rightarrow> [(ErrChan e, Some a)]
               | Pending \<Rightarrow> [])
              @ [(TimeAfter, Some (nat timeout)), (CtxDone, ctxDoneAt)]) of
        None \<Rightarrow> None
      | Some (URLChan url, now) \<Rightarrow>
          Some (None, now, t\<lparr>publicURL := url, monitor := True\<rparr>, w @ [SetPublicURL url])
      | Some (ErrChan e, now) \<Rightarrow> Some (Some e, now, t, w @ [Kill])
      | Some (TimeAfter, now) \<Rightarrow> Some (Some ConnectTimeout, now, t, w @ [Kill])
      | Some (CtxDone, now) \<Rightarrow> Some (Some Cancelled, now, t, w @ [Kill]))"

text \<open>
  \<open>connect\<close>.  \<open>ctxDoneAt\<close> is the moment the session's context is cancelled, if it is.
  \<open>None\<close> as a result means that the call never returns.
\<close>

definition connect ::
  "env \<Rightarrow> Duration \<Rightarrow> nat option \<Rightarrow> Tunnel \<Rightarrow> trace
    \<Rightarrow> (error option \<times> nat \<times> Tunnel \<times> trace) option" where
  "connect env timeout ctxDoneAt t w =
     (let args = sshArgs (provider t) (localPort t) timeout;
          sshCmd = (if goos env = ''windows'' then ''ssh.exe'' else ''ssh'');
          t1 = t\<lparr>cmd := Some \<lparr>Path = sshCmd, Args = args, Process = False\<rparr>\<rparr>
      in case stdoutPipe env of
           Some e \<Rightarrow> Some (Some (StdoutPipeFailed e), 0, t1, w)
         | None \<Rightarrow>
             (case stderrPipe env of
                Some e \<Rightarrow> Some (Some (StderrPipeFailed e), 0, t1, w)
              | None \<Rightarrow>
                  (case cmdStart env of
                     Inl e \<Rightarrow>
                       Some (Some (if isNetworkError (stringsToLower env) (Some e)
                                   then TunnelUnreachable
                                   else LaunchFailed e), 0, t1, w)
                   | Inr output \<Rightarrow>
                       awaitURL (selectCoin env) timeout ctxDoneAt
                         (scan (URLRegex (provider t)) output)
                         (t\<lparr>cmd := Some \<lparr>Path = sshCmd, Args = args, Process = True\<rparr>\<rparr>)
                         (w @ [Spawn sshCmd args]))))"

text \<open>
  \<open>NewTunnel\<close>.  The context is created here and its cancel function is stored in the
  session only, which nobody else holds before \<open>NewTunnel\<close> returns: during this
  \<open>connect\<close> the context is never cancelled.  When \<open>connect\<close> fails the session is
  dropped and only the error is returned.
\<close>

definition newSession :: "TunnelConfig \<Rightarrow> Tunnel" where
  "newSession cfg =
     \<lparr> cmd = None, publicURL = [], localPort = LocalPort cfg, ctxDone = False,
       provider = Provider cfg, monitor = False, doneClosed = False \<rparr>"

definition NewTunnel :: "env \<Rightarrow> TunnelConfig \<Rightarrow> trace \<Rightarrow> ((error + Tunnel) \<times> trace) option" where
  "NewTunnel env cfg w =
     (let timeout = (if Timeout cfg = 0 then 30 * Second else Timeout cfg)
      in case connect env timeout None (newSession cfg) w of
           None \<Rightarrow> None
         | Some (Some e, now, t, w') \<Rightarrow> Some (Inl e, w')
         | Some (None, now, t, w') \<Rightarrow> Some (Inr t, w'))"

definition PublicURL :: "Tunnel \<Rightarrow> string" where
  "PublicURL t = publicURL t"

text \<open>
  \<open>Close\<close>.  \<open>exitAfter\<close> is how long after this call the monitoring goroutine closes
  \<open>done\<close> (\<open>None\<close>: it does not); without that goroutine nothing closes the channel.
  The result is the returned error, the time the call waited, the session and the trace.
\<close>

datatype closeCase = DoneChan | CloseTimer

definition Close ::
  "nat \<Rightarrow> nat option \<Rightarrow> Tunnel \<Rightarrow> trace \<Rightarrow> (error option \<times> nat \<times> Tunnel \<times> trace) option" where
  "Close coin exitAfter t w =
     (let t1 = t\<lparr>ctxDone := True\<rparr>;
          w1 = (case cmd t of
                  Some c \<Rightarrow> if Process c then w @ [Kill] else w
                | None \<Rightarrow> w);
          doneAt = (if doneClosed t then Some 0 else if monitor t then exitAfter else None)
      in case select coin [(DoneChan, doneAt), (CloseTimer, Some (nat (5 * Second)))] of
           None \<Rightarrow> None
         | Some (DoneChan, waited) \<Rightarrow> Some (None, waited, t1\<lparr>doneClosed := True\<rparr>, w1)
         | Some (CloseTimer, waited) \<Rightarrow> Some (Some CloseTimeout, waited, t1, w1))"

text \<open>\<open>Wait\<close> returns once \<open>done\<close> is closed, and not at all when it never is.\<close>

definition Wait :: "nat option \<Rightarrow> Tunnel \<Rightarrow> Tunnel option" where
  "Wait exitAfter t =
     (if doneClosed t then Some t
      else if monitor t
      then (case exitAfter of None \<Rightarrow> None | Some d \<Rightarrow> Some (t\<lparr>doneClosed := True\<rparr>))
      else None)"

text \<open>
  The calls a holder of a session can make, and a sequence of them; the sequence stops
  with \<open>None\<close> at a call that does not return.
\<close>

datatype call = CallPublicURL | CallClose nat "nat option" | CallWait "nat option"

fun perform :: "call \<Rightarrow> Tunnel \<times> trace \<Rightarrow> (Tunnel \<times> trace) option" where
  "perform CallPublicURL (t, w) = Some (t, w)"
| "perform (CallClose coin exitAfter) (t, w) =
     (case Close coin exitAfter t w of
        None \<Rightarrow> None
      | Some (r, waited, t', w') \<Rightarrow> Some (t', w'))"
| "perform (CallWait exitAfter) (t, w) =
     (case Wait exitAfter t of None \<Rightarrow> None | Some t' \<Rightarrow> Some (t', w))"

fun performAll :: "call list \<Rightarrow> Tunnel \<times> trace \<Rightarrow> (Tunnel \<times> trace) option" where
  "performAll [] s = Some s"
| "performAll (c # cs) s =
     (case perform c s of None \<Rightarrow> None | Some s' \<Rightarrow> performAll cs s')"

section \<open>The command\<close>

text \<open>\<open>IsOnline\<close>: whether the dial to the well-known endpoint succeeded.\<close>

definition IsOnline :: "env \<Rightarrow> bool" where
  "IsOnline env = dialOnline env"

text \<open>
  The package-level variables of the command, and what \<open>cmd.Flags().Changed\<close> says about
  the two flags that have a default in the configuration.  \<open>cfg\<close> is set before
  \<open>runQRLocal\<close> runs.
\<close>

record state =
  publicFlag :: bool
  copyFlag :: bool
  quietFlag :: bool
  providerFlag :: string
  quietChanged :: bool
  copyChanged :: bool
  cfg :: Config
  activeTunnel :: "Tunnel option"

text \<open>The renderer prints nothing in quiet mode, except the final output.\<close>

definition PrintError :: "bool \<Rightarrow> string \<Rightarrow> trace \<Rightarrow> trace" where
  "PrintError quiet message w = (if quiet then w else w @ [Print ErrorMsg message])"

definition PrintSuccess :: "bool \<Rightarrow> string \<Rightarrow> trace \<Rightarrow> trace" where
  "PrintSuccess quiet message w = (if quiet then w else w @ [Print SuccessMsg message])"

definition PrintInfo :: "bool \<Rightarrow> string \<Rightarrow> trace \<Rightarrow> trace" where
  "PrintInfo quiet message w = (if quiet then w else w @ [Print InfoMsg message])"

definition GenerateLocalURL :: "env \<Rightarrow> int \<Rightarrow> error + string" where
  "GenerateLocalURL env port =
     (case localIP env of
        Inl e \<Rightarrow> Inl (LocalIPFailed e)
      | Inr ip \<Rightarrow> Inr (''http://'' @ ip @ '':'' @ Itoa port))"

definition createPublicTunnel ::
  "env \<Rightarrow> int \<Rightarrow> bool \<Rightarrow> state \<Rightarrow> trace \<Rightarrow> ((error + string) \<times> state \<times> trace) option" where
  "createPublicTunnel env port quiet st w =
     (if \<not> IsOnline env
      then Some (Inl Offline, st,
             PrintInfo quiet
               ''Try using qrlocal without --public to share on your local network.''
               (PrintInfo quiet ''Public tunnels require an internet connection.''
                 (PrintError quiet ''You appear to be offline.'' w)))
      else
        (let providerName =
               (if providerFlag st = [] then DefaultProvider (cfg st) else providerFlag st)
         in case GetProvider (regexpCompile env) (stringsToLower env) providerName
                   (Some (cfg st)) of
              Inl e \<Rightarrow>
                Some (Inl e, st,
                  PrintInfo quiet ''Use 'qrlocal providers' to see available providers.''
                    (PrintError quiet (''Unknown provider: '' @ providerName) w))
            | Inr p \<Rightarrow>
                (case NewTunnel env \<lparr>LocalPort = port, Provider = p, Timeout = 0\<rparr>
                        (PrintInfo quiet
                           (''Creating public tunnel via '' @ providerName @ ''...'') w) of
                   None \<Rightarrow> None
                 | Some (Inl e, w') \<Rightarrow>
                     Some (Inl e, st,
                       PrintInfo quiet
                         ''This might be a temporary issue. Please try again in a moment.''
                         (PrintError quiet (''Failed to create tunnel: '' @ Error e) w'))
                 | Some (Inr t, w') \<Rightarrow>
                     Some (Inr (PublicURL t), st\<lparr>activeTunnel := Some t\<rparr>,
                       PrintSuccess quiet ''Tunnel established!'' w'))))"

definition cleanupTunnel :: "env \<Rightarrow> bool \<Rightarrow> state \<Rightarrow> trace \<Rightarrow> (state \<times> trace) option" where
  "cleanupTunnel env quiet st w =
     (case activeTunnel st of
        None \<Rightarrow> Some (st, w)
      | Some t \<Rightarrow>
          (case Close (selectCoin env) (exitAfterKill env) t w of
             None \<Rightarrow> None
           | Some (Some e, waited, t', w') \<Rightarrow>
               Some (st\<lparr>activeTunnel := Some t'\<rparr>,
                 PrintError quiet (''Error during cleanup: '' @ Error e) w')
           | Some (None, waited, t', w') \<Rightarrow>
               Some (st\<lparr>activeTunnel := Some t'\<rparr>,
                 PrintSuccess quiet ''Tunnel closed. Goodbye!'' w')))"

text \<open>
  \<open>waitForShutdown\<close>: its own context is cancelled only by the deferred call, so the
  \<open>select\<close> returns when a signal arrives and never otherwise.
\<close>

definition waitForShutdown :: "env \<Rightarrow> bool \<Rightarrow> state \<Rightarrow> trace \<Rightarrow> (state \<times> trace) option" where
  "waitForShutdown env quiet st w =
     (if signalArrives env
      then cleanupTunnel env quiet st
             (PrintInfo quiet (CHR 0x0A # ''Shutting down gracefully...'') w)
      else None)"

text \<open>
  \<open>runQRLocal\<close>, with the one positional argument that \<open>cobra.ExactArgs(1)\<close> lets
  through.
\<close>

definition runQRLocal ::
  "env \<Rightarrow> string \<Rightarrow> state \<Rightarrow> trace \<Rightarrow> (error option \<times> state \<times> trace) option" where
  "runQRLocal env arg st0 w0 =
     (case Atoi arg of
        None \<Rightarrow> Some (Some (InvalidPort arg), st0, w0)
      | Some port \<Rightarrow>
          if port < 1 \<or> port > 65535 then Some (Some (InvalidPort arg), st0, w0)
          else
            (let st1 = (if \<not> quietChanged st0 \<and> QuietMode (cfg st0)
                        then st0\<lparr>quietFlag := True\<rparr> else st0);
                 st = (if \<not> copyChanged st1 \<and> CopyToClipboard (cfg st1)
                       then st1\<lparr>copyFlag := True\<rparr> else st1);
                 quiet = quietFlag st
             in if \<not> portActive env port
                then Some (Some (PortNotActive port), st,
                       PrintInfo quiet ''Make sure your server is running before sharing it.''
                         (PrintError quiet
                            (''No service is listening on port '' @ Itoa port) w0))
                else
                  (case (if publicFlag st then createPublicTunnel env port quiet st w0
                         else (case GenerateLocalURL env port of
                                 Inl e \<Rightarrow>
                                   Some (Inl e, st,
                                     PrintError quiet
                                       ''Failed to determine local IP address'' w0)
                               | Inr u \<Rightarrow> Some (Inr u, st, w0))) of
                     None \<Rightarrow> None
                   | Some (Inl e, st2, w2) \<Rightarrow> Some (Some e, st2, w2)
                   | Some (Inr url, st2, w2) \<Rightarrow>
                       (let w3 =
                              (if copyFlag st2
                               then (case clipboardErr env of
                                       Some e \<Rightarrow>
                                         PrintError quiet
                                           (''Failed to copy URL to clipboard: '' @ msg e) w2
                                     | None \<Rightarrow>
                                         PrintSuccess quiet ''URL copied to clipboard!''
                                           (w2 @ [ClipboardWrite url]))
                               else w2)
                        in case qrErr env of
                             Some e \<Rightarrow>
                               Some (Some (RenderFailed e), st2,
                                 PrintError quiet ''Failed to generate QR code'' w3)
                           | None \<Rightarrow>
                               (let w4 = w3 @ [Render url (publicFlag st2)]
                                in case activeTunnel st2 of
                                     None \<Rightarrow> Some (None, st2, w4)
                                   | Some t \<Rightarrow>
                                       (case waitForShutdown env quiet st2
                                               (PrintInfo quiet
                                                  ''Press Ctrl+C to stop the tunnel and exit...''
                                                  w4) of
                                          None \<Rightarrow> None
                                        | Some (st5, w5) \<Rightarrow> Some (None, st5, w5)))))))"

section \<open>Sample runs\<close>

text \<open>
  Concrete values on which the theorems below are exercised: a relay that prints the
  address on its first line two seconds after the start, a machine with a listener on port
  3000, and a user-configured provider whose relay port is 0.  \<open>sampleCompile\<close> knows
  the two patterns it is asked to compile in these runs, rejects an unbalanced
  parenthesis, and takes any other text literally.
\<close>

definition sampleOutput :: "read list" where
  "sampleOutput =
     [\<lparr> at = 2000000000,
        line = ''Connect to https://abcd12.lhr.life or...'' @ [CHR 0x0A],
        rerr = None \<rparr>]"

definition sampleCompile :: "string \<Rightarrow> oserror + Regexp" where
  "sampleCompile pat =
     (if pat = ''https://[a-zA-Z0-9]+'' @ BS @ ''.lhr'' @ BS @ ''.life''
      then Inr (URLRegex LocalhostRun)
      else if pat = ''(''
      then Inl \<lparr> msg = ''error parsing regexp: missing closing ): `(`'',
                  asNetError = False, asDNSError = False \<rparr>
      else Inr (FindString (lits pat)))"

definition sampleEnv :: env where
  "sampleEnv =
     \<lparr> goos = ''linux'', regexpCompile = sampleCompile, stringsToLower = lowerASCII,
       stdoutPipe = None, stderrPipe = None,
       cmdStart = Inr sampleOutput, selectCoin = 0,
       dialOnline = True, exitAfterKill = Some 1000000,
       portActive = (\<lambda>port. port = 3000), localIP = Inr ''192.168.1.5'',
       clipboardErr = None, qrErr = None, signalArrives = True \<rparr>"

definition sampleState :: state where
  "sampleState =
     \<lparr> publicFlag = True, copyFlag = False, quietFlag = False, providerFlag = [],
       quietChanged = False, copyChanged = False, cfg = DefaultConfig,
       activeTunnel = None \<rparr>"

definition relayConfig :: ProviderConfig where
  "relayConfig =
     \<lparr> ProviderConfig.Host = ''relay.example'', Port = 0, User = ''u'',
       URLRegex = ''https://relay.example'' \<rparr>"

definition relayProvider :: Provider where
  "relayProvider =
     \<lparr> Name = ''relay'', Host = ''relay.example'', Port = ''0'', User = ''u'',
       URLRegex = FindString (lits ''https://relay.example'') \<rparr>"

text \<open>
  The configuration of the sample session and the session that \<open>NewTunnel\<close> returns for
  it; an output that ends without an address; the error of \<open>cmd.Start\<close> when the ssh
  client is not installed.
\<close>

definition sampleTunnelConfig :: TunnelConfig where
  "sampleTunnelConfig = \<lparr>LocalPort = 3000, Provider = LocalhostRun, Timeout = 0\<rparr>"

definition sampleSession :: Tunnel where
  "sampleSession =
     (newSession sampleTunnelConfig)
       \<lparr> cmd := Some \<lparr>Path = ''ssh'', Args = sshArgs LocalhostRun 3000 (30 * Second),
                       Process = True\<rparr>,
         publicURL := ''https://abcd12.lhr.life'',
         monitor := True \<rparr>"

definition eofOutput :: "read list" where
  "eofOutput =
     [\<lparr> at = 1000000000, line = ''Permission denied (publickey).'' @ [CHR 0x0A],
        rerr = None \<rparr>,
      \<lparr> at = 1500000000, line = [], rerr = Some EOF \<rparr>]"

definition missingSsh :: oserror where
  "missingSsh =
     \<lparr> msg = ''exec: \"ssh\": executable file not found in $PATH'',
       asNetError = False, asDNSError = False \<rparr>"

section \<open>Whole seconds of a duration\<close>

lemma pow2le_bound: "n < 2 ^ Suc k \<Longrightarrow> pow2le n \<le> 2 ^ k"
proof (induction k arbitrary: n)
  case 0
  then show ?case by (simp add: pow2le.simps)
next
  case (Suc k)
  show ?case
  proof (cases "n < 2")
    case True
    then show ?thesis by (simp add: pow2le.simps)
  next
    case False
    from Suc.prems have "n div 2 < 2 ^ Suc k" by simp
    from Suc.IH [OF this] False show ?thesis
      by (subst pow2le.simps) simp
  qed
qed

text \<open>Below \<open>2^24\<close> seconds \<open>Seconds\<close> is the truncated quotient; above, it can round up.\<close>

lemma Seconds_below_2_24:
  assumes "\<bar>d\<bar> < 2 ^ 24 * Second"
  shows "Seconds d = (if d < 0 then - ((- d) div Second) else d div Second)"
proof -
  define a where "a = nat \<bar>d\<bar>"
  define sec where "sec = a div 1000000000"
  define nsec where "nsec = a mod 1000000000"
  have "a < 2 ^ 24 * 1000000000" using assms by (simp add: a_def Second_def)
  then have "sec < 2 ^ Suc 23" by (simp add: sec_def less_mult_imp_div_less)
  from pow2le_bound [OF this] have p: "pow2le sec \<le> 2 ^ 23" .
  have "nsec < 1000000000" by (simp add: nsec_def)
  then have "1 \<le> 1000000000 - nsec" by simp
  then have "1 * 2 ^ 53 \<le> (1000000000 - nsec) * (2 ^ 53 :: nat)"
    by (intro mult_le_mono1)
  moreover have "1000000000 * pow2le sec \<le> 1000000000 * (2 ^ 23 :: nat)"
    using p by simp
  ultimately have no: "\<not> (1000000000 - nsec) * 2 ^ 53 < 1000000000 * pow2le sec"
    by simp
  have s: "Seconds d = (if d < 0 then - int sec else int sec)"
    using no unfolding Seconds_def Let_def a_def [symmetric] sec_def [symmetric] nsec_def [symmetric]
    by simp
  have "int sec = \<bar>d\<bar> div Second"
    by (simp add: sec_def a_def Second_def zdiv_int)
  with s show ?thesis by (simp add: abs_if)
qed

lemma Seconds_rounds_up: "Seconds 16777216999999999 = 16777217"
  by (simp add: Seconds_def pow2le.simps Let_def)

lemma Seconds_examples:
  "Seconds (30 * Second) = 30" "Seconds 0 = 0" "Seconds 1999999999 = 1"
  "Seconds (- 1999999999) = - 1" "Seconds 16777215999999999 = 16777215"
  by (simp_all add: Seconds_def pow2le.simps Let_def Second_def)

section \<open>Properties of select\<close>

lemma earliest_ready: "earliest cs = Some m \<Longrightarrow> filter (\<lambda>c. snd c = Some m) cs \<noteq> []"
proof (induction cs arbitrary: m rule: earliest.induct)
  case 1
  then show ?case by simp
next
  case (2 c cs)
  then show ?case by simp
next
  case (3 c t cs)
  then show ?case
    by (cases "earliest cs") (auto simp: min_def split: if_splits)
qed

lemma earliest_None: "earliest cs = None \<Longrightarrow> (c, Some t) \<notin> set cs"
  by (induction cs rule: earliest.induct) (auto split: option.splits)

lemma earliest_le: "earliest cs = Some m \<Longrightarrow> (c, Some t) \<in> set cs \<Longrightarrow> m \<le> t"
proof (induction cs arbitrary: m rule: earliest.induct)
  case 1
  then show ?case by simp
next
  case (2 c' cs)
  then show ?case by auto
next
  case (3 c' t' cs)
  then show ?case
    using earliest_None [of cs c t]
    by (cases "earliest cs") (auto simp: min_def split: if_splits)
qed

text \<open>The case that fires is one of the cases, and no case was ready before it.\<close>

lemma select_sound:
  assumes "select coin cs = Some (c, m)"
  shows "(c, Some m) \<in> set cs \<and> (\<forall>c' t. (c', Some t) \<in> set cs \<longrightarrow> m \<le> t)"
proof -
  obtain m0 where e0: "earliest cs = Some m0"
    using assms by (cases "earliest cs") (simp_all add: select_def)
  define ready where "ready = filter (\<lambda>c. snd c = Some m0) cs"
  have "select coin cs = Some (map fst ready ! (coin mod length ready), m0)"
    using e0 by (simp add: select_def Let_def ready_def)
  with assms have m0: "m0 = m" and c: "c = map fst ready ! (coin mod length ready)"
    by simp_all
  have ne: "ready \<noteq> []"
    unfolding ready_def using e0 by (rule earliest_ready)
  then have lt: "coin mod length ready < length ready" by simp
  then have "ready ! (coin mod length ready) \<in> set ready" by (rule nth_mem)
  moreover have "c = fst (ready ! (coin mod length ready))"
    using c lt by simp
  ultimately obtain x where x: "x \<in> set ready" "c = fst x" by blast
  from x(1) have "x \<in> set cs" "snd x = Some m0" by (simp_all add: ready_def)
  with x(2) have "(c, Some m0) \<in> set cs" by (metis prod.collapse)
  moreover have "\<forall>c' t. (c', Some t) \<in> set cs \<longrightarrow> m0 \<le> t"
    using earliest_le [OF e0] by blast
  ultimately show ?thesis using m0 by simp
qed

text \<open>A select with a case that becomes ready returns.\<close>

lemma select_returns: "(c, Some t) \<in> set cs \<Longrightarrow> \<exists>r. select coin cs = Some r"
  using earliest_None [of cs c t]
  by (cases "earliest cs") (auto simp: select_def Let_def)

text \<open>A case that is ready strictly before every other one fires, whatever the coin.\<close>

lemma select_unique:
  assumes "(c, Some m) \<in> set cs"
    and "\<forall>c' t. (c', Some t) \<in> set cs \<longrightarrow> (c', t) = (c, m) \<or> m < t"
  shows "select coin cs = Some (c, m)"
proof -
  from select_returns [OF assms(1)] obtain r' where "select coin cs = Some r'" by blast
  then obtain c' m' where r: "select coin cs = Some (c', m')" by (cases r') simp
  from select_sound [OF r] have mem: "(c', Some m') \<in> set cs"
    and le: "\<forall>c'' t. (c'', Some t) \<in> set cs \<longrightarrow> m' \<le> t" by auto
  from le assms(1) have "m' \<le> m" by blast
  moreover from assms(2) mem have "(c', m') = (c, m) \<or> m < m'" by blast
  ultimately have "(c', m') = (c, m)" by auto
  with r show ?thesis by simp
qed

section \<open>The remote-forward argument\<close>

lemma connect_spawn:
  assumes "connect env timeout ctxDoneAt t w = Some (r, now, t', w')"
    and "stdoutPipe env = None" and "stderrPipe env = None" and "cmdStart env = Inr output"
  shows "\<exists>e. w' = w @ [Spawn (if goos env = ''windows'' then ''ssh.exe'' else ''ssh'')
                             (sshArgs (provider t) (localPort t) timeout), e]"
  using assms
  by (auto simp: connect_def awaitURL_def Let_def
           split: option.splits connectCase.splits prod.splits)

text \<open>
  C1 (as the code has it).  Whenever \<open>connect\<close> starts the ssh client, the arguments end
  with \<open>-R\<close>, the remote-forward specification and \<open>user@host\<close>, and the specification is
  \<open>0:localhost:<localPort>\<close> exactly for a provider whose name is \<open>pinggy\<close> and
  \<open>80:localhost:<localPort>\<close> for every other provider.  Host, port, user and pattern of
  the provider have no part in the choice.  In the earlier variant of the package the
  test is on the host \<open>a.pinggy.io\<close> instead.
\<close>

theorem connect_remote_forward:
  assumes "connect env timeout ctxDoneAt t w = Some (r, now, t', w')"
    and "stdoutPipe env = None" and "stderrPipe env = None" and "cmdStart env = Inr output"
  shows "(\<exists>sshCmd opts e.
            w' = w @ [Spawn sshCmd
                        (opts @ [''-R'',
                                 (if Name (provider t) = ''pinggy'' then ''0:localhost:''
                                  else ''80:localhost:'') @ Itoa (localPort t),
                                 User (provider t) @ ''@'' @ Host (provider t)]), e])
         \<and> remoteForward (p\<lparr>Host := h, Port := q, User := u, URLRegex := rx\<rparr>) port
             = remoteForward p port
         \<and> remoteForward_byHost p port =
             (if Host p = ''a.pinggy.io'' then ''0:localhost:'' else ''80:localhost:'')
               @ Itoa port"
proof -
  from connect_spawn [OF assms] obtain e where
    "w' = w @ [Spawn (if goos env = ''windows'' then ''ssh.exe'' else ''ssh'')
                 (sshArgs (provider t) (localPort t) timeout), e]" by blast
  moreover have "\<exists>opts. sshArgs (provider t) (localPort t) timeout =
      opts @ [''-R'', (if Name (provider t) = ''pinggy'' then ''0:localhost:''
                       else ''80:localhost:'') @ Itoa (localPort t),
              User (provider t) @ ''@'' @ Host (provider t)]"
    by (simp add: sshArgs_def remoteForward_def)
  ultimately have "\<exists>sshCmd opts e.
            w' = w @ [Spawn sshCmd
                        (opts @ [''-R'',
                                 (if Name (provider t) = ''pinggy'' then ''0:localhost:''
                                  else ''80:localhost:'') @ Itoa (localPort t),
                                 User (provider t) @ ''@'' @ Host (provider t)]), e]"
    by blast
  then show ?thesis
    by (simp add: remoteForward_def remoteForward_byHost_def)
qed

lemmas run_defs =
  connect_def awaitURL_def select_def sampleEnv_def newSession_def sshArgs_def
  remoteForward_def Seconds_def pow2le.simps Second_def Itoa_def digits.simps sampleOutput_def
  lits_def alnum_def Let_def

theorem connect_remote_forward_witness:
  "connect sampleEnv (30 * Second) None
     (newSession \<lparr>LocalPort = 3000, Provider = Pinggy, Timeout = 0\<rparr>) [] =
   Some (Some ConnectTimeout, 30000000000,
         (newSession \<lparr>LocalPort = 3000, Provider = Pinggy, Timeout = 0\<rparr>)
           \<lparr>cmd := Some \<lparr>Path = ''ssh'', Args = sshArgs Pinggy 3000 (30 * Second),
                          Process = True\<rparr>\<rparr>,
         [Spawn ''ssh'' (sshArgs Pinggy 3000 (30 * Second)), Kill])
   \<and> stdoutPipe sampleEnv = None \<and> stderrPipe sampleEnv = None
   \<and> cmdStart sampleEnv = Inr sampleOutput
   \<and> (\<exists>sshCmd opts e.
         [Spawn ''ssh'' (sshArgs Pinggy 3000 (30 * Second)), Kill] =
           [] @ [Spawn sshCmd (opts @ [''-R'', ''0:localhost:3000'', ''a@a.pinggy.io'']), e])"
proof -
  have run: "connect sampleEnv (30 * Second) None
     (newSession \<lparr>LocalPort = 3000, Provider = Pinggy, Timeout = 0\<rparr>) [] =
   Some (Some ConnectTimeout, 30000000000,
         (newSession \<lparr>LocalPort = 3000, Provider = Pinggy, Timeout = 0\<rparr>)
           \<lparr>cmd := Some \<lparr>Path = ''ssh'', Args = sshArgs Pinggy 3000 (30 * Second),
                          Process = True\<rparr>\<rparr>,
         [Spawn ''ssh'' (sshArgs Pinggy 3000 (30 * Second)), Kill])"
    by (simp add: run_defs Pinggy_def)
  have pipes: "stdoutPipe sampleEnv = None" "stderrPipe sampleEnv = None"
    "cmdStart sampleEnv = Inr sampleOutput"
    by (simp_all add: sampleEnv_def)
  from connect_remote_forward [OF run pipes]
  have "\<exists>sshCmd opts e.
         [Spawn ''ssh'' (sshArgs Pinggy 3000 (30 * Second)), Kill] =
           [] @ [Spawn sshCmd (opts @ [''-R'', ''0:localhost:3000'', ''a@a.pinggy.io'']), e]"
    by (simp add: newSession_def Pinggy_def Itoa_def digits.simps)
  with run pipes show ?thesis by blast
qed

text \<open>
  C1 (as stated) fails.  A provider has no remote-bind port; the one port it is configured
  with is the relay's.  A provider built from a configuration with port 0 is started with
  \<open>-R 80:localhost:3000\<close>; the built-in provider \<open>pinggy\<close>, whose port is 443, with
  \<open>-R 0:localhost:3000\<close>; and the same provider under another name with
  \<open>-R 80:localhost:3000\<close>.
\<close>

theorem remote_forward_counterexample:
  "ProviderFromConfig sampleCompile ''relay'' relayConfig = Inr relayProvider
   \<and> Port relayProvider = ''0''
   \<and> sshArgs relayProvider 3000 (30 * Second) =
       [''-o'', ''StrictHostKeyChecking=no'', ''-o'', ''UserKnownHostsFile=/dev/null'',
        ''-o'', ''LogLevel=ERROR'', ''-o'', ''ConnectTimeout=30'',
        ''-p'', ''0'', ''-R'', ''80:localhost:3000'', ''u@relay.example'']
   \<and> Port Pinggy = ''443''
   \<and> sshArgs Pinggy 3000 (30 * Second) =
       [''-o'', ''StrictHostKeyChecking=no'', ''-o'', ''UserKnownHostsFile=/dev/null'',
        ''-o'', ''LogLevel=ERROR'', ''-o'', ''ConnectTimeout=30'',
        ''-p'', ''443'', ''-R'', ''0:localhost:3000'', ''a@a.pinggy.io'']
   \<and> sshArgs (Pinggy\<lparr>Name := ''pinggy.io''\<rparr>) 3000 (30 * Second) =
       [''-o'', ''StrictHostKeyChecking=no'', ''-o'', ''UserKnownHostsFile=/dev/null'',
        ''-o'', ''LogLevel=ERROR'', ''-o'', ''ConnectTimeout=30'',
        ''-p'', ''443'', ''-R'', ''80:localhost:3000'', ''a@a.pinggy.io'']"
  by (simp add: ProviderFromConfig_def sampleCompile_def relayConfig_def relayProvider_def
        BS_def sshArgs_def remoteForward_def Pinggy_def Seconds_def pow2le.simps Second_def Itoa_def
        digits.simps)

section \<open>The default timeout\<close>


section \<open>Waiting for the URL\<close>

lemma awaitURL_url_first:
  assumes "a < nat timeout" and "\<forall>c. ctxDoneAt = Some c \<longrightarrow> a < c"
  shows "awaitURL coin timeout ctxDoneAt (Found a url) t w =
           Some (None, a, t\<lparr>publicURL := url, monitor := True\<rparr>, w @ [SetPublicURL url])"
proof -
  have "select coin [(URLChan url, Some a), (TimeAfter, Some (nat timeout)), (CtxDone, ctxDoneAt)]
          = Some (URLChan url, a)"
    using assms by (intro select_unique) auto
  then show ?thesis by (simp add: awaitURL_def)
qed

lemma awaitURL_err_first:
  assumes "a < nat timeout" and "\<forall>c. ctxDoneAt = Some c \<longrightarrow> a < c"
  shows "awaitURL coin timeout ctxDoneAt (Failed a e) t w = Some (Some e, a, t, w @ [Kill])"
proof -
  have "select coin [(ErrChan e, Some a), (TimeAfter, Some (nat timeout)), (CtxDone, ctxDoneAt)]
          = Some (ErrChan e, a)"
    using assms by (intro select_unique) auto
  then show ?thesis by (simp add: awaitURL_def)
qed

lemma awaitURL_returns:
  "\<exists>r now t' w'. awaitURL coin timeout ctxDoneAt sc t w = Some (r, now, t', w')"
proof -
  let ?cs = "(case sc of Found a url \<Rightarrow> [(URLChan url, Some a)]
               | Failed a e \<Rightarrow> [(ErrChan e, Some a)]
               | Pending \<Rightarrow> [])
              @ [(TimeAfter, Some (nat timeout)), (CtxDone, ctxDoneAt)]"
  have "(TimeAfter, Some (nat timeout)) \<in> set ?cs" by simp
  from select_returns [OF this] obtain r where "select coin ?cs = Some r" by blast
  then show ?thesis
    by (cases r; cases "fst r") (auto simp: awaitURL_def)
qed

lemma awaitURL_bounded:
  assumes "awaitURL coin timeout ctxDoneAt sc t w = Some (r, now, t', w')"
  shows "now \<le> nat timeout"
proof -
  let ?cs = "(case sc of Found a url \<Rightarrow> [(URLChan url, Some a)]
               | Failed a e \<Rightarrow> [(ErrChan e, Some a)]
               | Pending \<Rightarrow> [])
              @ [(TimeAfter, Some (nat timeout)), (CtxDone, ctxDoneAt)]"
  from assms obtain c where s: "select coin ?cs = Some (c, now)"
    by (auto simp: awaitURL_def split: option.splits prod.splits connectCase.splits)
  have "(TimeAfter, Some (nat timeout)) \<in> set ?cs" by simp
  with select_sound [OF s] show ?thesis by blast
qed

lemma connect_returns:
  "\<exists>r now t' w'. connect env timeout ctxDoneAt t w = Some (r, now, t', w')"
  using awaitURL_returns
  by (simp add: connect_def Let_def split: option.splits sum.splits)

lemma connect_bounded:
  assumes "connect env timeout ctxDoneAt t w = Some (r, now, t', w')"
  shows "now \<le> nat timeout"
  using assms awaitURL_bounded
  by (auto simp: connect_def Let_def split: option.splits sum.splits)

lemma scan_no_match_eof:
  assumes "\<forall>r \<in> set rs. rerr r = None" and "rerr l = Some EOF"
    and "\<forall>r \<in> set (rs @ [l]). rx (line r) = []"
  shows "scan rx (rs @ [l]) = Failed (at l) NoURLProduced"
  using assms by (induction rs) auto


section \<open>The public URL of a session\<close>

text \<open>No call on a session writes the public URL.\<close>

lemma Close_publicURL:
  "Close coin ea t w = Some (r, waited, t', w') \<Longrightarrow>
     publicURL t' = publicURL t \<and> filter isSetPublicURL w' = filter isSetPublicURL w"
  by (auto simp: Close_def Let_def split: option.splits prod.splits closeCase.splits if_splits)

lemma Wait_publicURL: "Wait ea t = Some t' \<Longrightarrow> publicURL t' = publicURL t"
  by (auto simp: Wait_def split: if_splits option.splits)

lemma perform_publicURL:
  "perform c (t, w) = Some (t', w') \<Longrightarrow>
     publicURL t' = publicURL t \<and> filter isSetPublicURL w' = filter isSetPublicURL w"
  by (cases c) (auto split: option.splits dest: Close_publicURL Wait_publicURL)

lemma performAll_publicURL:
  "performAll cs (t, w) = Some (t', w') \<Longrightarrow>
     publicURL t' = publicURL t \<and> filter isSetPublicURL w' = filter isSetPublicURL w"
proof (induction cs arbitrary: t w)
  case Nil
  then show ?case by simp
next
  case (Cons c cs)
  from Cons.prems obtain t1 w1 where p: "perform c (t, w) = Some (t1, w1)"
    and rest: "performAll cs (t1, w1) = Some (t', w')"
    by (auto split: option.splits)
  from perform_publicURL [OF p] Cons.IH [OF rest] show ?case by simp
qed

text \<open>
  C3.  When the subprocess starts and the first line of its output has a non-empty match
  of the provider's pattern, and that line is read before the timer fires and before the
  context is cancelled, \<open>connect\<close> succeeds at the moment the line is read; the public URL
  of the session is the match (what \<open>FindString\<close> returns for the line, not the line), and
  \<open>PublicURL\<close> returns that string after any sequence of later calls on the session.
\<close>

theorem connect_first_line_match:
  assumes "stdoutPipe env = None" and "stderrPipe env = None"
    and "cmdStart env = Inr (r # rs)"
    and "line r \<noteq> []" and "URLRegex (provider t) (line r) \<noteq> []"
    and "at r < nat timeout" and "\<forall>c. ctxDoneAt = Some c \<longrightarrow> at r < c"
  shows "\<exists>t' w'. connect env timeout ctxDoneAt t w = Some (None, at r, t', w')
           \<and> PublicURL t' = URLRegex (provider t) (line r)
           \<and> (\<forall>calls t'' w''. performAll calls (t', w') = Some (t'', w'')
                 \<longrightarrow> PublicURL t'' = URLRegex (provider t) (line r))"
proof -
  let ?url = "URLRegex (provider t) (line r)"
  have sc: "scan (URLRegex (provider t)) (r # rs) = Found (at r) ?url"
    using assms(4,5) by simp
  obtain t' w' where c: "connect env timeout ctxDoneAt t w = Some (None, at r, t', w')"
    and u: "publicURL t' = ?url"
    using assms(1,2,3) sc awaitURL_url_first [OF assms(6,7)]
    by (simp add: connect_def Let_def)
  have "\<forall>calls t'' w''. performAll calls (t', w') = Some (t'', w'') \<longrightarrow> PublicURL t'' = ?url"
    using performAll_publicURL u by (auto simp: PublicURL_def)
  with c u show ?thesis by (auto simp: PublicURL_def)
qed

lemma awaitURL_failed:
  assumes "awaitURL coin timeout ctxDoneAt (Failed a e) t w = Some (r, now, t', w')"
  shows "now \<le> a \<and> r \<noteq> None \<and> t' = t"
proof -
  let ?cs = "[(ErrChan e, Some a), (TimeAfter, Some (nat timeout)), (CtxDone, ctxDoneAt)]"
  from assms obtain c where s: "select coin ?cs = Some (c, now)"
    by (auto simp: awaitURL_def split: option.splits prod.splits connectCase.splits)
  from select_sound [OF s] have "now \<le> a" and "(c, Some now) \<in> set ?cs" by auto
  then have "c \<noteq> URLChan u" for u by auto
  with assms s \<open>now \<le> a\<close> show ?thesis
    by (cases c) (auto simp: awaitURL_def)
qed

text \<open>
  C4.  When the output ends (a read returns \<open>io.EOF\<close>) and no line has a match,
  \<open>connect\<close> returns an error no later than the end of the output and no later than the
  timeout; when the end of the output comes before the timer and before a cancellation,
  the error is \<open>NoURLProduced\<close> and \<open>connect\<close> returns exactly at the end of the output.
\<close>

theorem connect_eof_without_match:
  assumes "stdoutPipe env = None" and "stderrPipe env = None"
    and "cmdStart env = Inr (rs @ [l])"
    and "\<forall>r \<in> set rs. rerr r = None" and "rerr l = Some EOF"
    and "\<forall>r \<in> set (rs @ [l]). URLRegex (provider t) (line r) = []"
  shows "\<exists>e now t' w'. connect env timeout ctxDoneAt t w = Some (Some e, now, t', w')
           \<and> now \<le> at l \<and> now \<le> nat timeout \<and> PublicURL t' = PublicURL t
           \<and> (at l < nat timeout \<and> (\<forall>c. ctxDoneAt = Some c \<longrightarrow> at l < c)
                \<longrightarrow> e = NoURLProduced \<and> now = at l)"
proof -
  have sc: "scan (URLRegex (provider t)) (rs @ [l]) = Failed (at l) NoURLProduced"
    using assms(4,5,6) by (rule scan_no_match_eof)
  define t2 where "t2 = t\<lparr>cmd := Some \<lparr>Path = (if goos env = ''windows'' then ''ssh.exe'' else ''ssh''),
      Args = sshArgs (provider t) (localPort t) timeout, Process = True\<rparr>\<rparr>"
  define w2 where "w2 = w @ [Spawn (if goos env = ''windows'' then ''ssh.exe'' else ''ssh'')
      (sshArgs (provider t) (localPort t) timeout)]"
  have c: "connect env timeout ctxDoneAt t w =
        awaitURL (selectCoin env) timeout ctxDoneAt (Failed (at l) NoURLProduced) t2 w2"
    using assms(1,2,3) sc by (simp add: connect_def Let_def t2_def w2_def)
  obtain r now t' w' where a: "awaitURL (selectCoin env) timeout ctxDoneAt
        (Failed (at l) NoURLProduced) t2 w2 = Some (r, now, t', w')"
    using awaitURL_returns by blast
  from awaitURL_failed [OF a] obtain e where r: "r = Some e" and le: "now \<le> at l"
    and t': "t' = t2" by auto
  from awaitURL_bounded [OF a] have b: "now \<le> nat timeout" .
  have "e = NoURLProduced \<and> now = at l"
    if "at l < nat timeout" "\<forall>c. ctxDoneAt = Some c \<longrightarrow> at l < c"
    using awaitURL_err_first [OF that, of "selectCoin env" NoURLProduced t2 w2] a r by simp
  with c a r le b t' show ?thesis by (auto simp: PublicURL_def t2_def)
qed


theorem connect_first_line_match_witness:
  "stdoutPipe sampleEnv = None \<and> stderrPipe sampleEnv = None
   \<and> cmdStart sampleEnv = Inr (hd sampleOutput # [])
   \<and> line (hd sampleOutput) = ''Connect to https://abcd12.lhr.life or...'' @ [CHR 0x0A]
   \<and> URLRegex (provider (newSession sampleTunnelConfig)) (line (hd sampleOutput))
        = ''https://abcd12.lhr.life''
   \<and> at (hd sampleOutput) < nat (30 * Second)
   \<and> (\<exists>t' w'. connect sampleEnv (30 * Second) None (newSession sampleTunnelConfig) []
                  = Some (None, 2000000000, t', w')
         \<and> PublicURL t' = ''https://abcd12.lhr.life''
         \<and> (\<forall>calls t'' w''. performAll calls (t', w') = Some (t'', w'')
               \<longrightarrow> PublicURL t'' = ''https://abcd12.lhr.life''))"
proof -
  have h: "stdoutPipe sampleEnv = None" "stderrPipe sampleEnv = None"
    "cmdStart sampleEnv = Inr (hd sampleOutput # [])"
    "line (hd sampleOutput) \<noteq> []"
    by (simp_all add: sampleEnv_def sampleOutput_def)
  have u: "URLRegex (provider (newSession sampleTunnelConfig)) (line (hd sampleOutput))
        = ''https://abcd12.lhr.life''"
    by (simp add: newSession_def sampleTunnelConfig_def LocalhostRun_def sampleOutput_def
          lits_def alnum_def)
  then have u': "URLRegex (provider (newSession sampleTunnelConfig)) (line (hd sampleOutput)) \<noteq> []"
    by simp
  have a: "at (hd sampleOutput) < nat (30 * Second)"
    "\<forall>c. (None :: nat option) = Some c \<longrightarrow> at (hd sampleOutput) < c"
    "at (hd sampleOutput) = 2000000000"
    "line (hd sampleOutput) = ''Connect to https://abcd12.lhr.life or...'' @ [CHR 0x0A]"
    by (simp_all add: sampleOutput_def Second_def)
  from connect_first_line_match [OF h u' a(1,2), of "[]"] h u a
  show ?thesis by simp
qed

theorem connect_eof_without_match_witness:
  "stdoutPipe (sampleEnv\<lparr>cmdStart := Inr eofOutput\<rparr>) = None
   \<and> stderrPipe (sampleEnv\<lparr>cmdStart := Inr eofOutput\<rparr>) = None
   \<and> cmdStart (sampleEnv\<lparr>cmdStart := Inr eofOutput\<rparr>) = Inr ([hd eofOutput] @ [last eofOutput])
   \<and> rerr (hd eofOutput) = None \<and> rerr (last eofOutput) = Some EOF
   \<and> URLRegex (provider (newSession sampleTunnelConfig)) (line (hd eofOutput)) = []
   \<and> URLRegex (provider (newSession sampleTunnelConfig)) (line (last eofOutput)) = []
   \<and> at (last eofOutput) < nat (30 * Second)
   \<and> (\<exists>t' w'. connect (sampleEnv\<lparr>cmdStart := Inr eofOutput\<rparr>) (30 * Second) None
                  (newSession sampleTunnelConfig) []
                = Some (Some NoURLProduced, 1500000000, t', w'))"
proof -
  let ?env = "sampleEnv\<lparr>cmdStart := Inr eofOutput\<rparr>"
  have h: "stdoutPipe ?env = None" "stderrPipe ?env = None"
    "cmdStart ?env = Inr ([hd eofOutput] @ [last eofOutput])"
    by (simp_all add: sampleEnv_def eofOutput_def)
  have e: "rerr (hd eofOutput) = None" "rerr (last eofOutput) = Some EOF"
    by (simp_all add: eofOutput_def)
  have n: "URLRegex (provider (newSession sampleTunnelConfig)) (line (hd eofOutput)) = []"
    "URLRegex (provider (newSession sampleTunnelConfig)) (line (last eofOutput)) = []"
    by (simp_all add: newSession_def sampleTunnelConfig_def LocalhostRun_def eofOutput_def
          lits_def alnum_def)
  have a: "at (last eofOutput) = 1500000000" "at (last eofOutput) < nat (30 * Second)"
    by (simp_all add: eofOutput_def Second_def)
  have e': "\<forall>r \<in> set [hd eofOutput]. rerr r = None" using e(1) by simp
  have n': "\<forall>r \<in> set ([hd eofOutput] @ [last eofOutput]).
         URLRegex (provider (newSession sampleTunnelConfig)) (line r) = []"
    using n by simp
  from connect_eof_without_match [OF h e' e(2) n', of "30 * Second" None "[]"] a
  have "\<exists>t' w'. connect ?env (30 * Second) None (newSession sampleTunnelConfig) []
                = Some (Some NoURLProduced, 1500000000, t', w')"
    by auto
  with h e n a(2) show ?thesis by blast
qed

section \<open>Single assignment of the public URL\<close>

lemma awaitURL_publicURL:
  assumes "awaitURL coin timeout ctxDoneAt sc t w = Some (r, now, t', w')"
  shows "(r \<noteq> None \<longrightarrow> publicURL t' = publicURL t
            \<and> filter isSetPublicURL w' = filter isSetPublicURL w)
       \<and> (r = None \<longrightarrow> (\<exists>a. sc = Found a (publicURL t'))
            \<and> w' = w @ [SetPublicURL (publicURL t')])"
proof -
  let ?cs = "(case sc of Found a url \<Rightarrow> [(URLChan url, Some a)]
               | Failed a e \<Rightarrow> [(ErrChan e, Some a)]
               | Pending \<Rightarrow> [])
              @ [(TimeAfter, Some (nat timeout)), (CtxDone, ctxDoneAt)]"
  from assms obtain c where s: "select coin ?cs = Some (c, now)"
    by (auto simp: awaitURL_def split: option.splits prod.splits connectCase.splits)
  from select_sound [OF s] have mem: "(c, Some now) \<in> set ?cs" by simp
  show ?thesis
  proof (cases c)
    case (URLChan url)
    with mem have "sc = Found now url" by (cases sc) auto
    with assms s URLChan show ?thesis by (auto simp: awaitURL_def)
  next
    case (ErrChan e)
    with assms s show ?thesis by (auto simp: awaitURL_def)
  next
    case TimeAfter
    with assms s show ?thesis by (auto simp: awaitURL_def)
  next
    case CtxDone
    with assms s show ?thesis by (auto simp: awaitURL_def)
  qed
qed

lemma scan_Found_nonempty: "scan rx rs = Found a url \<Longrightarrow> url \<noteq> []"
  by (induction rs) (auto split: if_splits option.splits readerr.splits)

lemma connect_publicURL:
  assumes "connect env timeout ctxDoneAt t w = Some (r, now, t', w')"
  shows "(r \<noteq> None \<longrightarrow> publicURL t' = publicURL t
            \<and> filter isSetPublicURL w' = filter isSetPublicURL w)
       \<and> (r = None \<longrightarrow> publicURL t' \<noteq> []
            \<and> (\<exists>w1. w' = w1 @ [SetPublicURL (publicURL t')]
                  \<and> filter isSetPublicURL w1 = filter isSetPublicURL w))"
proof (cases "stdoutPipe env = None \<and> stderrPipe env = None \<and> (\<exists>out. cmdStart env = Inr out)")
  case True
  then obtain out where o: "stdoutPipe env = None" "stderrPipe env = None" "cmdStart env = Inr out"
    by blast
  define t2 where "t2 = t\<lparr>cmd := Some \<lparr>Path = (if goos env = ''windows'' then ''ssh.exe'' else ''ssh''),
      Args = sshArgs (provider t) (localPort t) timeout, Process = True\<rparr>\<rparr>"
  define w2 where "w2 = w @ [Spawn (if goos env = ''windows'' then ''ssh.exe'' else ''ssh'')
      (sshArgs (provider t) (localPort t) timeout)]"
  have a: "awaitURL (selectCoin env) timeout ctxDoneAt (scan (URLRegex (provider t)) out) t2 w2
             = Some (r, now, t', w')"
    using assms o by (simp add: connect_def Let_def t2_def w2_def)
  have t2: "publicURL t2 = publicURL t" by (simp add: t2_def)
  have w2: "filter isSetPublicURL w2 = filter isSetPublicURL w" by (simp add: w2_def)
  from awaitURL_publicURL [OF a] t2 w2 scan_Found_nonempty [of "URLRegex (provider t)" out]
  show ?thesis by auto
next
  case False
  with assms show ?thesis
    by (auto simp: connect_def Let_def split: option.splits sum.splits)
qed

text \<open>
  C6.  A new session has an empty public URL.  \<open>connect\<close> on such a session either fails,
  leaving the URL empty and assigning nothing, or succeeds with a non-empty URL whose
  assignment is the last thing \<open>connect\<close> does before it returns, and its only assignment.
  After that no call on the session assigns the URL again, and \<open>PublicURL\<close> returns the
  same string after every sequence of calls.  (Every operation of the model is atomic, as
  the mutex makes the reads and the write.)
\<close>

theorem publicURL_assigned_once:
  assumes "connect env timeout ctxDoneAt t w = Some (r, now, t', w')"
    and "publicURL t = []"
  shows "PublicURL (newSession tc) = []
       \<and> (r \<noteq> None \<longrightarrow> PublicURL t' = []
            \<and> filter isSetPublicURL w' = filter isSetPublicURL w)
       \<and> (r = None \<longrightarrow> PublicURL t' \<noteq> []
            \<and> (\<exists>w1. w' = w1 @ [SetPublicURL (PublicURL t')]
                  \<and> filter isSetPublicURL w1 = filter isSetPublicURL w))
       \<and> (\<forall>calls t'' w''. performAll calls (t', w') = Some (t'', w'')
             \<longrightarrow> PublicURL t'' = PublicURL t'
               \<and> filter isSetPublicURL w'' = filter isSetPublicURL w')"
  using connect_publicURL [OF assms(1)] assms(2) performAll_publicURL
  by (simp add: PublicURL_def newSession_def)



lemma sample_connect:
  "connect sampleEnv (30 * Second) None (newSession sampleTunnelConfig) [] =
     Some (None, 2000000000, sampleSession,
           [Spawn ''ssh'' (sshArgs LocalhostRun 3000 (30 * Second)),
            SetPublicURL ''https://abcd12.lhr.life''])"
  by (simp add: run_defs sampleTunnelConfig_def sampleSession_def LocalhostRun_def)

lemma sample_NewTunnel:
  "NewTunnel sampleEnv sampleTunnelConfig [] =
     Some (Inr sampleSession,
           [Spawn ''ssh'' (sshArgs LocalhostRun 3000 (30 * Second)),
            SetPublicURL ''https://abcd12.lhr.life''])"
  using sample_connect by (simp add: NewTunnel_def sampleTunnelConfig_def)

lemma sampleSession_fields:
  "cmd sampleSession = Some \<lparr>Path = ''ssh'', Args = sshArgs LocalhostRun 3000 (30 * Second),
                       Process = True\<rparr>"
  "monitor sampleSession" "\<not> doneClosed sampleSession"
  "publicURL sampleSession = ''https://abcd12.lhr.life''"
  by (simp_all add: sampleSession_def newSession_def)


theorem publicURL_assigned_once_witness:
  "connect sampleEnv (30 * Second) None (newSession sampleTunnelConfig) [] =
     Some (None, 2000000000, sampleSession,
           [Spawn ''ssh'' (sshArgs LocalhostRun 3000 (30 * Second)),
            SetPublicURL ''https://abcd12.lhr.life''])
   \<and> publicURL (newSession sampleTunnelConfig) = []
   \<and> PublicURL sampleSession = ''https://abcd12.lhr.life''
   \<and> performAll [CallPublicURL, CallClose 0 (Some 1000000), CallWait None, CallPublicURL]
         (sampleSession,
          [Spawn ''ssh'' (sshArgs LocalhostRun 3000 (30 * Second)),
           SetPublicURL ''https://abcd12.lhr.life''])
       = Some (sampleSession\<lparr>ctxDone := True, doneClosed := True\<rparr>,
               [Spawn ''ssh'' (sshArgs LocalhostRun 3000 (30 * Second)),
                SetPublicURL ''https://abcd12.lhr.life'', Kill])
   \<and> PublicURL (sampleSession\<lparr>ctxDone := True, doneClosed := True\<rparr>)
       = ''https://abcd12.lhr.life''"
proof -
  have e: "publicURL (newSession sampleTunnelConfig) = []" by (simp add: newSession_def)
  have p: "performAll [CallPublicURL, CallClose 0 (Some 1000000), CallWait None, CallPublicURL]
         (sampleSession,
          [Spawn ''ssh'' (sshArgs LocalhostRun 3000 (30 * Second)),
           SetPublicURL ''https://abcd12.lhr.life''])
       = Some (sampleSession\<lparr>ctxDone := True, doneClosed := True\<rparr>,
               [Spawn ''ssh'' (sshArgs LocalhostRun 3000 (30 * Second)),
                SetPublicURL ''https://abcd12.lhr.life'', Kill])"
    by (simp add: Close_def Wait_def select_def Let_def sampleSession_fields Second_def)
  from publicURL_assigned_once [OF sample_connect e, of sampleTunnelConfig]
  have u: "PublicURL sampleSession \<noteq> []"
    and k: "\<forall>calls t'' w''.
         performAll calls
           (sampleSession,
            [Spawn ''ssh'' (sshArgs LocalhostRun 3000 (30 * Second)),
             SetPublicURL ''https://abcd12.lhr.life'']) = Some (t'', w'')
         \<longrightarrow> PublicURL t'' = PublicURL sampleSession"
    by simp_all
  from k p have "PublicURL (sampleSession\<lparr>ctxDone := True, doneClosed := True\<rparr>)
       = PublicURL sampleSession" by blast
  moreover have "PublicURL sampleSession = ''https://abcd12.lhr.life''"
    by (simp add: PublicURL_def sampleSession_fields)
  ultimately show ?thesis using sample_connect e p by simp
qed

section \<open>Closing a session\<close>

lemma Close_cases:
  "select coin [(DoneChan, doneAt), (CloseTimer, Some (nat (5 * Second)))] =
     (case doneAt of
        None \<Rightarrow> Some (CloseTimer, nat (5 * Second))
      | Some d \<Rightarrow>
          if d < nat (5 * Second) then Some (DoneChan, d)
          else if nat (5 * Second) < d then Some (CloseTimer, nat (5 * Second))
          else Some (if coin mod 2 = 0 then DoneChan else CloseTimer, d))"
proof -
  have "coin mod 2 = 0 \<or> coin mod 2 = 1" by arith
  then show ?thesis
    by (auto simp: select_def Let_def min_def numeral_2_eq_2 split: option.splits)
qed

lemma Close_returns:
  "\<exists>r waited t' w'. Close coin ea t w = Some (r, waited, t', w')
      \<and> waited \<le> nat (5 * Second) \<and> (r = None \<or> r = Some CloseTimeout)
      \<and> (r = Some CloseTimeout \<longrightarrow> waited = nat (5 * Second) \<and> \<not> doneClosed t
            \<and> t' = t\<lparr>ctxDone := True\<rparr>)
      \<and> (r = None \<longrightarrow> t' = t\<lparr>ctxDone := True, doneClosed := True\<rparr>)"
proof -
  define doneAt where "doneAt = (if doneClosed t then Some 0 else if monitor t then ea else None)"
  show ?thesis
  proof (cases doneAt)
    case None
    then have "\<not> doneClosed t" by (auto simp: doneAt_def split: if_splits)
    with None show ?thesis
      unfolding Close_def Let_def doneAt_def [symmetric] Close_cases by simp
  next
    case (Some d)
    have "d = 0" if "doneClosed t" using that Some by (simp add: doneAt_def)
    then have z: "doneClosed t \<Longrightarrow> d < nat (5 * Second)" by (simp add: Second_def)
    from Some z show ?thesis
      unfolding Close_def Let_def doneAt_def [symmetric] Close_cases
      by auto
  qed
qed

lemma Close_when_done:
  assumes "doneClosed t"
  shows "\<exists>w'. Close coin ea t w = Some (None, 0, t\<lparr>ctxDone := True\<rparr>, w')"
proof -
  have "t\<lparr>ctxDone := True, doneClosed := True\<rparr> = t\<lparr>ctxDone := True\<rparr>"
    using assms by simp
  then show ?thesis
    using assms unfolding Close_def Let_def Close_cases
    by (simp add: Second_def)
qed

lemma Close_not_done:
  assumes "\<not> doneClosed t"
  shows "\<exists>r waited t' w'. Close coin ea t w = Some (r, waited, t', w')
      \<and> (case ea of
            None \<Rightarrow> r = Some CloseTimeout \<and> waited = nat (5 * Second)
          | Some d \<Rightarrow>
              (monitor t \<and> d < nat (5 * Second) \<longrightarrow> r = None \<and> waited = d)
              \<and> (\<not> monitor t \<or> nat (5 * Second) < d
                   \<longrightarrow> r = Some CloseTimeout \<and> waited = nat (5 * Second)))"
proof -
  obtain r waited t' w' where c: "Close coin ea t w = Some (r, waited, t', w')"
    using Close_returns by blast
  then show ?thesis
    using assms unfolding Close_def Let_def Close_cases
    by (cases ea) (auto split: if_splits)
qed

text \<open>
  C5 (as the code has it).  Every \<open>Close\<close> returns, after at most five seconds, with
  success or with \<open>CloseTimeout\<close>.  After a \<open>Close\<close> that returned success, a further
  \<open>Close\<close> returns success at once and leaves the session as it is.  After a \<open>Close\<close>
  that reported \<open>CloseTimeout\<close> (it waited the five seconds), a further \<open>Close\<close> waits
  again: it reports \<open>CloseTimeout\<close> after five more seconds when the exit is not observed
  in that time, and success when it is.
\<close>

theorem Close_repeated:
  "\<exists>r waited t1 w1. Close coin ea t w = Some (r, waited, t1, w1)
      \<and> waited \<le> nat (5 * Second)
      \<and> (r = None \<or> r = Some CloseTimeout)
      \<and> (r = None \<longrightarrow> (\<exists>w2. Close coin' ea' t1 w1 = Some (None, 0, t1, w2)))
      \<and> (r = Some CloseTimeout \<longrightarrow> waited = nat (5 * Second)
           \<and> (\<exists>r2 waited2 t2 w2. Close coin' ea' t1 w1 = Some (r2, waited2, t2, w2)
                \<and> (case ea' of
                      None \<Rightarrow> r2 = Some CloseTimeout \<and> waited2 = nat (5 * Second)
                    | Some d \<Rightarrow>
                        (monitor t \<and> d < nat (5 * Second) \<longrightarrow> r2 = None \<and> waited2 = d)
                        \<and> (\<not> monitor t \<or> nat (5 * Second) < d
                             \<longrightarrow> r2 = Some CloseTimeout \<and> waited2 = nat (5 * Second)))))"
proof -
  obtain r waited t1 w1 where c: "Close coin ea t w = Some (r, waited, t1, w1)"
    and b: "waited \<le> nat (5 * Second)" and rr: "r = None \<or> r = Some CloseTimeout"
    and tmo: "r = Some CloseTimeout \<longrightarrow> waited = nat (5 * Second) \<and> \<not> doneClosed t
            \<and> t1 = t\<lparr>ctxDone := True\<rparr>"
    and ok: "r = None \<longrightarrow> t1 = t\<lparr>ctxDone := True, doneClosed := True\<rparr>"
    using Close_returns [of coin ea t w] by blast
  have A: "\<exists>w2. Close coin' ea' t1 w1 = Some (None, 0, t1, w2)" if "r = None"
  proof -
    from that ok have d: "doneClosed t1" and e: "t1\<lparr>ctxDone := True\<rparr> = t1" by simp_all
    from Close_when_done [OF d, of coin' ea' w1] e show ?thesis by simp
  qed
  have B: "\<exists>r2 waited2 t2 w2. Close coin' ea' t1 w1 = Some (r2, waited2, t2, w2)
                \<and> (case ea' of
                      None \<Rightarrow> r2 = Some CloseTimeout \<and> waited2 = nat (5 * Second)
                    | Some d \<Rightarrow>
                        (monitor t \<and> d < nat (5 * Second) \<longrightarrow> r2 = None \<and> waited2 = d)
                        \<and> (\<not> monitor t \<or> nat (5 * Second) < d
                             \<longrightarrow> r2 = Some CloseTimeout \<and> waited2 = nat (5 * Second)))"
    if "r = Some CloseTimeout"
  proof -
    from that tmo have d: "\<not> doneClosed t1" and m: "monitor t1 = monitor t" by simp_all
    from Close_not_done [OF d, of coin' ea' w1] show ?thesis unfolding m .
  qed
  from c b rr tmo A B show ?thesis by blast
qed

theorem Close_repeated_witness:
  "Close 0 (Some 1000000) sampleSession [] =
     Some (None, 1000000, sampleSession\<lparr>ctxDone := True, doneClosed := True\<rparr>, [Kill])
   \<and> (\<exists>w2. Close 1 None (sampleSession\<lparr>ctxDone := True, doneClosed := True\<rparr>) [Kill] =
         Some (None, 0, sampleSession\<lparr>ctxDone := True, doneClosed := True\<rparr>, w2))
   \<and> Close 0 None sampleSession [] =
       Some (Some CloseTimeout, 5000000000, sampleSession\<lparr>ctxDone := True\<rparr>, [Kill])
   \<and> (\<exists>t2 w2. Close 1 (Some 0) (sampleSession\<lparr>ctxDone := True\<rparr>) [Kill] =
         Some (None, 0, t2, w2))"
proof -
  have a: "Close 0 (Some 1000000) sampleSession [] =
     Some (None, 1000000, sampleSession\<lparr>ctxDone := True, doneClosed := True\<rparr>, [Kill])"
    by (simp add: Close_def select_def Let_def sampleSession_fields Second_def)
  have b: "Close 0 None sampleSession [] =
       Some (Some CloseTimeout, 5000000000, sampleSession\<lparr>ctxDone := True\<rparr>, [Kill])"
    by (simp add: Close_def select_def Let_def sampleSession_fields Second_def)
  from Close_repeated [of 0 "Some 1000000" sampleSession "[]" 1 None] a
  have c: "\<exists>w2. Close 1 None (sampleSession\<lparr>ctxDone := True, doneClosed := True\<rparr>) [Kill] =
         Some (None, 0, sampleSession\<lparr>ctxDone := True, doneClosed := True\<rparr>, w2)"
    by simp
  from Close_repeated [of 0 None sampleSession "[]" 1 "Some 0"] b
  have d: "\<exists>t2 w2. Close 1 (Some 0) (sampleSession\<lparr>ctxDone := True\<rparr>) [Kill] =
         Some (None, 0, t2, w2)"
    by (auto simp: sampleSession_fields Second_def)
  from a b c d show ?thesis by blast
qed


text \<open>
  C5 (as stated) fails.  On an established session whose subprocess's exit is not
  observed, the first \<open>Close\<close> reports \<open>CloseTimeout\<close> after five seconds and the second
  blocks for five seconds again; and when the exit has been observed by the time of the
  second call, the second call returns success, not what the first returned.
\<close>

theorem close_twice_counterexample:
  "NewTunnel sampleEnv sampleTunnelConfig [] =
     Some (Inr sampleSession,
           [Spawn ''ssh'' (sshArgs LocalhostRun 3000 (30 * Second)),
            SetPublicURL ''https://abcd12.lhr.life''])
   \<and> Close 0 None sampleSession [] =
       Some (Some CloseTimeout, 5000000000, sampleSession\<lparr>ctxDone := True\<rparr>, [Kill])
   \<and> Close 0 None (sampleSession\<lparr>ctxDone := True\<rparr>) [Kill] =
       Some (Some CloseTimeout, 5000000000, sampleSession\<lparr>ctxDone := True\<rparr>, [Kill, Kill])
   \<and> Close 0 (Some 0) (sampleSession\<lparr>ctxDone := True\<rparr>) [Kill] =
       Some (None, 0, sampleSession\<lparr>ctxDone := True, doneClosed := True\<rparr>, [Kill, Kill])"
  using sample_NewTunnel
  by (simp add: Close_def select_def Let_def sampleSession_fields Second_def)


section \<open>Start failures\<close>

text \<open>
  C10.  \<open>isNetworkError\<close> is true of every error whose message in lower case contains
  \<open>executable file not found\<close>.  So when \<open>cmd.Start\<close> fails with such an error, as it
  does when the ssh client is not installed, \<open>connect\<close> and \<open>NewTunnel\<close> return the error
  with the text "unable to connect to tunneling service: please check your internet
  connection", not the error "failed to start SSH tunnel", and nothing is spawned.
\<close>

theorem missing_ssh_reported_as_unreachable:
  assumes "Contains (stringsToLower env (msg e)) ''executable file not found''"
    and "stdoutPipe env = None" and "stderrPipe env = None" and "cmdStart env = Inl e"
  shows "isNetworkError (stringsToLower env) (Some e)
       \<and> (\<exists>t'. connect env timeout ctxDoneAt t w = Some (Some TunnelUnreachable, 0, t', w))
       \<and> NewTunnel env tc w = Some (Inl TunnelUnreachable, w)
       \<and> Error TunnelUnreachable =
           ''unable to connect to tunneling service: please check your internet connection''
       \<and> TunnelUnreachable \<noteq> LaunchFailed e"
proof -
  have n: "isNetworkError (stringsToLower env) (Some e)"
    using assms(1) by (simp add: isNetworkError_def networkPatterns_def)
  have c: "connect env timeout ctxDoneAt t w =
        Some (Some TunnelUnreachable, 0,
              t\<lparr>cmd := Some \<lparr>Path = (if goos env = ''windows'' then ''ssh.exe'' else ''ssh''),
                   Args = sshArgs (provider t) (localPort t) timeout, Process = False\<rparr>\<rparr>, w)"
    for timeout ctxDoneAt t
    using n assms(2,3,4) by (simp add: connect_def Let_def)
  show ?thesis
    using n c by (simp add: NewTunnel_def Let_def)
qed

theorem missing_ssh_reported_as_unreachable_witness:
  "Contains (stringsToLower (sampleEnv\<lparr>cmdStart := Inl missingSsh\<rparr>) (msg missingSsh))
     ''executable file not found''
   \<and> stdoutPipe (sampleEnv\<lparr>cmdStart := Inl missingSsh\<rparr>) = None
   \<and> stderrPipe (sampleEnv\<lparr>cmdStart := Inl missingSsh\<rparr>) = None
   \<and> cmdStart (sampleEnv\<lparr>cmdStart := Inl missingSsh\<rparr>) = Inl missingSsh
   \<and> isNetworkError (stringsToLower (sampleEnv\<lparr>cmdStart := Inl missingSsh\<rparr>))
        (Some missingSsh)
   \<and> NewTunnel (sampleEnv\<lparr>cmdStart := Inl missingSsh\<rparr>) sampleTunnelConfig []
       = Some (Inl TunnelUnreachable, [])"
proof -
  have h: "Contains (stringsToLower (sampleEnv\<lparr>cmdStart := Inl missingSsh\<rparr>) (msg missingSsh))
     ''executable file not found''"
    "stdoutPipe (sampleEnv\<lparr>cmdStart := Inl missingSsh\<rparr>) = None"
    "stderrPipe (sampleEnv\<lparr>cmdStart := Inl missingSsh\<rparr>) = None"
    "cmdStart (sampleEnv\<lparr>cmdStart := Inl missingSsh\<rparr>) = Inl missingSsh"
    by (simp_all add: missingSsh_def lowerASCII_def lowerByte_def sampleEnv_def)
  from missing_ssh_reported_as_unreachable [OF h, of 0 None "newSession sampleTunnelConfig" "[]" sampleTunnelConfig] h
  show ?thesis by blast
qed

section \<open>Resolving a provider\<close>

lemma ProviderFromConfig_not_unknown:
  "ProviderFromConfig compile name pc \<noteq> Inl (UnknownProvider n)"
  by (simp add: ProviderFromConfig_def split: sum.splits)

lemma builtinProvider_None:
  "builtinProvider lname = None \<longleftrightarrow>
     lname \<notin> {''localhost.run'', ''localhostrun'', ''pinggy'', ''pinggy.io'',
                ''serveo'', ''serveo.net'', ''tunnelto'', ''tunnel.to''}"
  by (simp add: builtinProvider_def)

text \<open>
  The built-in table is reached through the lower-case form of the name, whatever the
  bytes of the name are: a name that \<open>strings.ToLower\<close> maps to \<open>pinggy\<close> resolves to
  \<open>Pinggy\<close>.
\<close>

lemma GetProvider_by_lower_case:
  "toLower name = ''pinggy'' \<Longrightarrow> GetProvider compile toLower name None = Inr Pinggy"
  by (simp add: GetProvider_def builtinProvider_def)

text \<open>
  C8.  \<open>GetProvider\<close> consults the configuration first: for a name found in \<open>providers\<close>,
  or else in \<open>custom_providers\<close>, the result is what \<open>ProviderFromConfig\<close> builds from that
  entry, which is the provider with the entry's host, port, user and compiled pattern when
  the pattern compiles.  For a name in neither table (or without a configuration) the
  result is the built-in provider for the name in lower case.  The result is the
  \<open>UnknownProvider\<close> error exactly when the name is in neither table and its lower-case
  form, as \<open>strings.ToLower\<close> gives it, is none of the eight built-in names.
\<close>

theorem GetProvider_lookup_order:
  "(\<forall>c pc. conf = Some c \<and> Providers c name = Some pc
       \<longrightarrow> GetProvider compile toLower name conf = ProviderFromConfig compile name pc)
   \<and> (\<forall>c pc. conf = Some c \<and> Providers c name = None \<and> CustomProviders c name = Some pc
       \<longrightarrow> GetProvider compile toLower name conf = ProviderFromConfig compile name pc)
   \<and> (\<forall>pc rx. compile (ProviderConfig.URLRegex pc) = Inr rx
       \<longrightarrow> ProviderFromConfig compile name pc =
             Inr \<lparr> Name = name, Host = ProviderConfig.Host pc,
                   Port = Itoa (ProviderConfig.Port pc), User = ProviderConfig.User pc,
                   URLRegex = rx \<rparr>)
   \<and> ((\<forall>c. conf = Some c \<longrightarrow> Providers c name = None \<and> CustomProviders c name = None)
       \<longrightarrow> GetProvider compile toLower name conf =
             (case builtinProvider (toLower name) of
                Some p \<Rightarrow> Inr p
              | None \<Rightarrow> Inl (UnknownProvider name)))
   \<and> ((\<exists>n. GetProvider compile toLower name conf = Inl (UnknownProvider n))
        \<longleftrightarrow> (\<forall>c. conf = Some c \<longrightarrow> Providers c name = None \<and> CustomProviders c name = None)
            \<and> toLower name \<notin> {''localhost.run'', ''localhostrun'', ''pinggy'', ''pinggy.io'',
                                 ''serveo'', ''serveo.net'', ''tunnelto'', ''tunnel.to''})"
proof -
  have 1: "GetProvider compile toLower name conf = ProviderFromConfig compile name pc"
    if "conf = Some c" "Providers c name = Some pc" for c pc
    using that by (simp add: GetProvider_def Config_GetProvider_def)
  have 2: "GetProvider compile toLower name conf = ProviderFromConfig compile name pc"
    if "conf = Some c" "Providers c name = None" "CustomProviders c name = Some pc" for c pc
    using that by (simp add: GetProvider_def Config_GetProvider_def)
  have 3: "ProviderFromConfig compile name pc =
             Inr \<lparr> Name = name, Host = ProviderConfig.Host pc,
                   Port = Itoa (ProviderConfig.Port pc), User = ProviderConfig.User pc,
                   URLRegex = rx \<rparr>"
    if "compile (ProviderConfig.URLRegex pc) = Inr rx" for pc rx
    using that by (simp add: ProviderFromConfig_def)
  have 4: "GetProvider compile toLower name conf =
             (case builtinProvider (toLower name) of
                Some p \<Rightarrow> Inr p
              | None \<Rightarrow> Inl (UnknownProvider name))"
    if "\<forall>c. conf = Some c \<longrightarrow> Providers c name = None \<and> CustomProviders c name = None"
    using that by (cases conf) (simp_all add: GetProvider_def Config_GetProvider_def)
  have 5: "(\<exists>n. GetProvider compile toLower name conf = Inl (UnknownProvider n))
        \<longleftrightarrow> (\<forall>c. conf = Some c \<longrightarrow> Providers c name = None \<and> CustomProviders c name = None)
            \<and> builtinProvider (toLower name) = None"
  proof (cases "\<forall>c. conf = Some c \<longrightarrow> Providers c name = None \<and> CustomProviders c name = None")
    case True
    with 4 show ?thesis by (auto split: option.splits)
  next
    case False
    then obtain c where c: "conf = Some c"
      and "Providers c name \<noteq> None \<or> CustomProviders c name \<noteq> None"
      by auto
    then obtain pc where "Providers c name = Some pc
           \<or> (Providers c name = None \<and> CustomProviders c name = Some pc)"
      by (cases "Providers c name") auto
    with 1 2 c have "GetProvider compile toLower name conf = ProviderFromConfig compile name pc"
      by blast
    with False ProviderFromConfig_not_unknown show ?thesis by simp
  qed
  from 1 2 3 4 5 show ?thesis unfolding builtinProvider_None by blast
qed

theorem GetProvider_lookup_order_witness:
  "Providers DefaultConfig ''localhost.run'' =
     Some \<lparr> ProviderConfig.Host = ''localhost.run'', Port = 22, User = ''nokey'',
            URLRegex = ''https://[a-zA-Z0-9]+'' @ BS @ ''.lhr'' @ BS @ ''.life'' \<rparr>
   \<and> GetProvider sampleCompile lowerASCII ''localhost.run'' (Some DefaultConfig)
       = Inr LocalhostRun
   \<and> lowerASCII ''Pinggy.IO'' = ''pinggy.io''
   \<and> GetProvider sampleCompile lowerASCII ''Pinggy.IO'' None = Inr Pinggy
   \<and> Providers DefaultConfig ''ngrok'' = None \<and> CustomProviders DefaultConfig ''ngrok'' = None
   \<and> lowerASCII ''ngrok'' = ''ngrok''
   \<and> GetProvider sampleCompile lowerASCII ''ngrok'' (Some DefaultConfig)
       = Inl (UnknownProvider ''ngrok'')"
proof -
  let ?pc = "\<lparr> ProviderConfig.Host = ''localhost.run'', Port = 22, User = ''nokey'',
            URLRegex = ''https://[a-zA-Z0-9]+'' @ BS @ ''.lhr'' @ BS @ ''.life'' \<rparr>"
  have p: "Providers DefaultConfig ''localhost.run'' = Some ?pc"
    "Providers DefaultConfig ''ngrok'' = None" "CustomProviders DefaultConfig ''ngrok'' = None"
    by (simp_all add: DefaultConfig_def)
  have l: "lowerASCII ''Pinggy.IO'' = ''pinggy.io''" "lowerASCII ''ngrok'' = ''ngrok''"
    by (simp_all add: lowerASCII_def lowerByte_def)
  have k: "sampleCompile (ProviderConfig.URLRegex ?pc) = Inr (URLRegex LocalhostRun)"
    by (simp add: sampleCompile_def)
  from GetProvider_lookup_order [of "Some DefaultConfig" "''localhost.run''" sampleCompile lowerASCII]
    p(1) k
  have 1: "GetProvider sampleCompile lowerASCII ''localhost.run'' (Some DefaultConfig)
       = Inr LocalhostRun"
    by (simp add: LocalhostRun_def Itoa_def digits.simps)
  from GetProvider_lookup_order [of None "''Pinggy.IO''" sampleCompile lowerASCII] l
  have 2: "GetProvider sampleCompile lowerASCII ''Pinggy.IO'' None = Inr Pinggy"
    by (simp add: builtinProvider_def)
  from GetProvider_lookup_order [of "Some DefaultConfig" "''ngrok''" sampleCompile lowerASCII]
    p(2,3) l
  have 3: "GetProvider sampleCompile lowerASCII ''ngrok'' (Some DefaultConfig)
       = Inl (UnknownProvider ''ngrok'')"
    by (simp add: builtinProvider_def)
  from p l 1 2 3 show ?thesis by simp
qed

section \<open>The command: port check and connectivity probe\<close>

text \<open>
  C2 (as the code has it).  The range of the port is checked by the command:
  \<open>runQRLocal\<close> returns the \<open>InvalidPort\<close> error for an argument that is not a decimal
  number or lies outside 1..65535, and then the state and the trace are as before: no
  session, no subprocess.  \<open>NewTunnel\<close> does not look at the port: whenever the subprocess
  can be started it is started, with the given port in the remote-forward argument.
\<close>

theorem port_range_checked_by_command:
  "((Atoi arg = None \<or> (\<exists>port. Atoi arg = Some port \<and> (port < 1 \<or> 65535 < port)))
      \<longrightarrow> runQRLocal env arg st w = Some (Some (InvalidPort arg), st, w))
   \<and> (stdoutPipe env = None \<and> stderrPipe env = None \<and> cmdStart env = Inr out
      \<longrightarrow> (\<exists>r e. NewTunnel env tc w =
                   Some (r, w @ [Spawn (if goos env = ''windows'' then ''ssh.exe'' else ''ssh'')
                                   (sshArgs (Provider tc) (LocalPort tc)
                                      (if Timeout tc = 0 then 30 * Second else Timeout tc)),
                                 e])))"
proof -
  have 1: "runQRLocal env arg st w = Some (Some (InvalidPort arg), st, w)"
    if "Atoi arg = None \<or> (\<exists>port. Atoi arg = Some port \<and> (port < 1 \<or> 65535 < port))"
    using that by (auto simp: runQRLocal_def)
  have 2: "\<exists>r e. NewTunnel env tc w =
                   Some (r, w @ [Spawn (if goos env = ''windows'' then ''ssh.exe'' else ''ssh'')
                                   (sshArgs (Provider tc) (LocalPort tc)
                                      (if Timeout tc = 0 then 30 * Second else Timeout tc)),
                                 e])"
    if p: "stdoutPipe env = None" "stderrPipe env = None" "cmdStart env = Inr out"
  proof -
    define T where "T = (if Timeout tc = 0 then 30 * Second else Timeout tc)"
    obtain r now t' w' where c: "connect env T None (newSession tc) w = Some (r, now, t', w')"
      using connect_returns by blast
    from connect_spawn [OF c p] obtain e where
      w': "w' = w @ [Spawn (if goos env = ''windows'' then ''ssh.exe'' else ''ssh'')
                       (sshArgs (Provider tc) (LocalPort tc) T), e]"
      by (auto simp: newSession_def)
    have "NewTunnel env tc w = Some (case r of Some e \<Rightarrow> Inl e | None \<Rightarrow> Inr t', w')"
      using c by (cases r) (simp_all add: NewTunnel_def Let_def T_def)
    with w' show ?thesis unfolding T_def by blast
  qed
  from 1 2 show ?thesis by blast
qed

theorem port_range_checked_by_command_witness:
  "Atoi ''70000'' = Some 70000 \<and> (65535 :: int) < 70000
   \<and> runQRLocal sampleEnv ''70000'' sampleState [] =
        Some (Some (InvalidPort ''70000''), sampleState, [])
   \<and> Atoi ''http'' = None
   \<and> runQRLocal sampleEnv ''http'' sampleState [] =
        Some (Some (InvalidPort ''http''), sampleState, [])
   \<and> stdoutPipe sampleEnv = None \<and> stderrPipe sampleEnv = None
   \<and> cmdStart sampleEnv = Inr sampleOutput
   \<and> (\<exists>r e. NewTunnel sampleEnv sampleTunnelConfig [] =
         Some (r, [Spawn ''ssh'' (sshArgs LocalhostRun 3000 (30 * Second)), e]))"
proof -
  have a: "Atoi ''70000'' = Some 70000" "Atoi ''http'' = None"
    by (simp_all add: Atoi_def digitVal_def)
  have p: "stdoutPipe sampleEnv = None" "stderrPipe sampleEnv = None"
    "cmdStart sampleEnv = Inr sampleOutput" "goos sampleEnv = ''linux''"
    by (simp_all add: sampleEnv_def)
  from port_range_checked_by_command [of "''70000''" sampleEnv sampleState "[]" sampleOutput sampleTunnelConfig] a p
  have 1: "runQRLocal sampleEnv ''70000'' sampleState [] =
        Some (Some (InvalidPort ''70000''), sampleState, [])"
    and 3: "\<exists>r e. NewTunnel sampleEnv sampleTunnelConfig [] =
         Some (r, [Spawn ''ssh'' (sshArgs LocalhostRun 3000 (30 * Second)), e])"
    by (simp_all add: sampleTunnelConfig_def)
  from port_range_checked_by_command [of "''http''" sampleEnv sampleState "[]"] a
  have 2: "runQRLocal sampleEnv ''http'' sampleState [] =
        Some (Some (InvalidPort ''http''), sampleState, [])"
    by simp
  from a p 1 2 3 show ?thesis by simp
qed

text \<open>
  C2 (as stated) fails.  \<open>NewTunnel\<close> with local port 70000, and with local port 0,
  starts the ssh client and returns an established session.
\<close>

theorem NewTunnel_unchecked_port_counterexample:
  "NewTunnel sampleEnv \<lparr>LocalPort = 70000, Provider = LocalhostRun, Timeout = 0\<rparr> [] =
     Some (Inr ((newSession \<lparr>LocalPort = 70000, Provider = LocalhostRun, Timeout = 0\<rparr>)
                  \<lparr> cmd := Some \<lparr>Path = ''ssh'',
                                 Args = sshArgs LocalhostRun 70000 (30 * Second),
                                 Process = True\<rparr>,
                    publicURL := ''https://abcd12.lhr.life'', monitor := True \<rparr>),
           [Spawn ''ssh''
              [''-o'', ''StrictHostKeyChecking=no'', ''-o'', ''UserKnownHostsFile=/dev/null'',
               ''-o'', ''LogLevel=ERROR'', ''-o'', ''ConnectTimeout=30'',
               ''-R'', ''80:localhost:70000'', ''nokey@localhost.run''],
            SetPublicURL ''https://abcd12.lhr.life''])
   \<and> NewTunnel sampleEnv \<lparr>LocalPort = 0, Provider = LocalhostRun, Timeout = 0\<rparr> [] =
     Some (Inr ((newSession \<lparr>LocalPort = 0, Provider = LocalhostRun, Timeout = 0\<rparr>)
                  \<lparr> cmd := Some \<lparr>Path = ''ssh'',
                                 Args = sshArgs LocalhostRun 0 (30 * Second),
                                 Process = True\<rparr>,
                    publicURL := ''https://abcd12.lhr.life'', monitor := True \<rparr>),
           [Spawn ''ssh''
              [''-o'', ''StrictHostKeyChecking=no'', ''-o'', ''UserKnownHostsFile=/dev/null'',
               ''-o'', ''LogLevel=ERROR'', ''-o'', ''ConnectTimeout=30'',
               ''-R'', ''80:localhost:0'', ''nokey@localhost.run''],
            SetPublicURL ''https://abcd12.lhr.life''])"
  by (simp add: NewTunnel_def run_defs LocalhostRun_def)


lemma spawn_Print [simp]:
  "filter isSpawn (PrintError q m w) = filter isSpawn w"
  "filter isSpawn (PrintInfo q m w) = filter isSpawn w"
  "filter isSpawn (PrintSuccess q m w) = filter isSpawn w"
  by (simp_all add: PrintError_def PrintInfo_def PrintSuccess_def)

lemma createPublicTunnel_offline:
  assumes "\<not> IsOnline env"
  shows "\<exists>w'. createPublicTunnel env port quiet st w = Some (Inl Offline, st, w')
           \<and> filter isSpawn w' = filter isSpawn w"
  using assms by (simp add: createPublicTunnel_def)

text \<open>
  C9.  When the dial of \<open>IsOnline\<close> fails, \<open>createPublicTunnel\<close> returns the \<open>Offline\<close>
  error, leaves the state as it is and spawns nothing.  A run of the command in public
  mode then ends with an error, spawns nothing and creates no session; the error is
  \<open>Offline\<close> whenever the argument is a port in range with a listener, that is, whenever
  the run gets as far as the probe.
\<close>

theorem offline_fails_before_spawn:
  assumes "\<not> IsOnline env"
  shows "(\<exists>w'. createPublicTunnel env port quiet st w = Some (Inl Offline, st, w')
            \<and> filter isSpawn w' = filter isSpawn w)
       \<and> (publicFlag st \<longrightarrow>
            (\<exists>e st' w'. runQRLocal env arg st w = Some (Some e, st', w')
               \<and> filter isSpawn w' = filter isSpawn w
               \<and> activeTunnel st' = activeTunnel st
               \<and> ((\<exists>p. Atoi arg = Some p \<and> 1 \<le> p \<and> p \<le> 65535 \<and> portActive env p)
                    \<longrightarrow> e = Offline)))"
proof -
  have "\<exists>e st' w'. runQRLocal env arg st w = Some (Some e, st', w')
               \<and> filter isSpawn w' = filter isSpawn w
               \<and> activeTunnel st' = activeTunnel st
               \<and> ((\<exists>p. Atoi arg = Some p \<and> 1 \<le> p \<and> p \<le> 65535 \<and> portActive env p)
                    \<longrightarrow> e = Offline)"
    if pf: "publicFlag st"
  proof (cases "Atoi arg")
    case None
    then show ?thesis by (simp add: runQRLocal_def)
  next
    case (Some port)
    show ?thesis
    proof (cases "port < 1 \<or> port > 65535")
      case True
      with Some show ?thesis by (auto simp: runQRLocal_def)
    next
      case range: False
      define st1 where "st1 = (if \<not> quietChanged st \<and> QuietMode (cfg st)
                        then st\<lparr>quietFlag := True\<rparr> else st)"
      define st2 where "st2 = (if \<not> copyChanged st1 \<and> CopyToClipboard (cfg st1)
                       then st1\<lparr>copyFlag := True\<rparr> else st1)"
      have f: "publicFlag st2" "activeTunnel st2 = activeTunnel st"
        using pf by (simp_all add: st1_def st2_def)
      show ?thesis
      proof (cases "portActive env port")
        case False
        with Some range f show ?thesis
          by (simp add: runQRLocal_def Let_def st1_def [symmetric] st2_def [symmetric])
      next
        case True
        from createPublicTunnel_offline [OF assms, of port "quietFlag st2" st2 w]
        obtain w' where "createPublicTunnel env port (quietFlag st2) st2 w = Some (Inl Offline, st2, w')"
          and "filter isSpawn w' = filter isSpawn w" by blast
        with Some range True f show ?thesis
          by (simp add: runQRLocal_def Let_def st1_def [symmetric] st2_def [symmetric])
      qed
    qed
  qed
  with createPublicTunnel_offline [OF assms] show ?thesis by blast
qed

theorem offline_fails_before_spawn_witness:
  "\<not> IsOnline (sampleEnv\<lparr>dialOnline := False\<rparr>)
   \<and> publicFlag sampleState
   \<and> Atoi ''3000'' = Some 3000 \<and> portActive (sampleEnv\<lparr>dialOnline := False\<rparr>) 3000
   \<and> (\<exists>st' w'. runQRLocal (sampleEnv\<lparr>dialOnline := False\<rparr>) ''3000'' sampleState []
                   = Some (Some Offline, st', w')
         \<and> filter isSpawn w' = [] \<and> activeTunnel st' = None)"
proof -
  let ?env = "sampleEnv\<lparr>dialOnline := False\<rparr>"
  have h: "\<not> IsOnline ?env" "publicFlag sampleState" "Atoi ''3000'' = Some 3000"
    "portActive ?env 3000" "activeTunnel sampleState = None"
    by (simp_all add: IsOnline_def sampleEnv_def sampleState_def Atoi_def digitVal_def)
  from offline_fails_before_spawn [OF h(1), of 3000 False sampleState "[]" "''3000''"] h
  show ?thesis by auto
qed


lemma sample_GetProvider:
  "GetProvider sampleCompile lowerASCII ''localhost.run'' (Some DefaultConfig)
     = Inr LocalhostRun"
  by (simp add: GetProvider_def Config_GetProvider_def DefaultConfig_def ProviderFromConfig_def
        sampleCompile_def BS_def LocalhostRun_def Itoa_def digits.simps)

text \<open>
  A complete run in public mode with the default configuration: the provider is resolved
  from the configuration, the tunnel is established, the address is rendered, and the
  interrupt closes the session.
\<close>

lemma sample_run:
  "runQRLocal sampleEnv ''3000'' sampleState [] =
     Some (None,
           sampleState\<lparr>activeTunnel := Some (sampleSession\<lparr>ctxDone := True, doneClosed := True\<rparr>)\<rparr>,
           [Print InfoMsg ''Creating public tunnel via localhost.run...'',
            Spawn ''ssh'' (sshArgs LocalhostRun 3000 (30 * Second)),
            SetPublicURL ''https://abcd12.lhr.life'',
            Print SuccessMsg ''Tunnel established!'',
            Render ''https://abcd12.lhr.life'' True,
            Print InfoMsg ''Press Ctrl+C to stop the tunnel and exit...'',
            Print InfoMsg (CHR 0x0A # ''Shutting down gracefully...''),
            Kill,
            Print SuccessMsg ''Tunnel closed. Goodbye!''])"
proof -
  have a: "Atoi ''3000'' = Some 3000" by (simp add: Atoi_def digitVal_def)
  have e: "regexpCompile sampleEnv = sampleCompile" "stringsToLower sampleEnv = lowerASCII"
    "IsOnline sampleEnv" "portActive sampleEnv 3000"
    "qrErr sampleEnv = None" "signalArrives sampleEnv" "selectCoin sampleEnv = 0"
    "exitAfterKill sampleEnv = Some 1000000"
    by (simp_all add: sampleEnv_def IsOnline_def)
  have s: "publicFlag sampleState" "\<not> copyFlag sampleState" "\<not> quietFlag sampleState"
    "providerFlag sampleState = []" "cfg sampleState = DefaultConfig"
    "\<not> QuietMode DefaultConfig" "\<not> CopyToClipboard DefaultConfig"
    "DefaultProvider DefaultConfig = ''localhost.run''"
    by (simp_all add: sampleState_def DefaultConfig_def)
  have n: "NewTunnel sampleEnv \<lparr>LocalPort = 3000, Provider = LocalhostRun, Timeout = 0\<rparr> w =
     Some (Inr sampleSession,
           w @ [Spawn ''ssh'' (sshArgs LocalhostRun 3000 (30 * Second)),
            SetPublicURL ''https://abcd12.lhr.life''])" for w
    by (simp add: NewTunnel_def run_defs sampleTunnelConfig_def sampleSession_def LocalhostRun_def)
  have c: "Close 0 (Some 1000000) sampleSession w =
     Some (None, 1000000, sampleSession\<lparr>ctxDone := True, doneClosed := True\<rparr>, w @ [Kill])" for w
    by (simp add: Close_def select_def Let_def sampleSession_fields Second_def)
  show ?thesis
    by (simp add: runQRLocal_def a e s createPublicTunnel_def sample_GetProvider n
          waitForShutdown_def cleanupTunnel_def c PrintInfo_def PrintSuccess_def PrintError_def
          PublicURL_def sampleSession_fields Let_def)
qed


end
